theory Spec2Isabelle
  imports Complex_Main "HOL-Library.AList"
begin

section \<open>JavaScript values\<close>

text \<open>
  The services work on parsed JSON bodies typed \<^verbatim>\<open>any\<close>.  A value is one of the JSON
  shapes or \<^verbatim>\<open>undefined\<close>.  An object is an association list in insertion order
  (\<open>AList.update\<close> overwrites in place or appends, as a property assignment does;
  \<open>AList.delete\<close> is \<^verbatim>\<open>delete obj.key\<close>).  A number is a rational or \<^verbatim>\<open>NaN\<close>
  (what arithmetic on an invalid date yields); infinities and the rounding of doubles are
  not modelled.  Strings are Unicode text, held as byte strings in UTF-8.
\<close>

datatype jsnum = NaN | Num rat

datatype json =
    JUndefined
  | JNull
  | JBool bool
  | JNum jsnum
  | JStr string
  | JArr "json list"
  | JObj "(string \<times> json) list"

text \<open>
  Truthiness: \<^verbatim>\<open>undefined\<close>, \<^verbatim>\<open>null\<close>, \<^verbatim>\<open>false\<close>, \<^verbatim>\<open>0\<close>, \<^verbatim>\<open>NaN\<close> and the empty
  string are falsy.
\<close>

fun truthy_num :: "jsnum \<Rightarrow> bool" where
  "truthy_num NaN = False"
| "truthy_num (Num r) = (r \<noteq> 0)"

fun truthy :: "json \<Rightarrow> bool" where
  "truthy JUndefined = False"
| "truthy JNull = False"
| "truthy (JBool b) = b"
| "truthy (JNum n) = truthy_num n"
| "truthy (JStr s) = (s \<noteq> [])"
| "truthy (JArr xs) = True"
| "truthy (JObj kvs) = True"

text \<open>\<^verbatim>\<open>a || b\<close>\<close>

definition jor :: "json \<Rightarrow> json \<Rightarrow> json" where
  "jor a b = (if truthy a then a else b)"

text \<open>
  Property read \<^verbatim>\<open>v.k\<close> for the field names the services use: \<^verbatim>\<open>undefined\<close> when
  the object has no such key, and on every primitive and array (whose own properties are
  \<^verbatim>\<open>length\<close> and indices, never read by name here).  Reading a property of
  \<^verbatim>\<open>null\<close> or \<^verbatim>\<open>undefined\<close> throws; the callers below guard against it.
\<close>

fun getp :: "json \<Rightarrow> string \<Rightarrow> json" where
  "getp (JObj kvs) k = (case map_of kvs k of None \<Rightarrow> JUndefined | Some v \<Rightarrow> v)"
| "getp _ k = JUndefined"

text \<open>\<^verbatim>\<open>'k' in v\<close> for an object.\<close>

fun has_key :: "json \<Rightarrow> string \<Rightarrow> bool" where
  "has_key (JObj kvs) k = (map_of kvs k \<noteq> None)"
| "has_key _ k = False"

fun isArray :: "json \<Rightarrow> bool" where
  "isArray (JArr xs) = True"
| "isArray _ = False"

text \<open>\<^verbatim>\<open>typeof v === 'object'\<close> (true of \<^verbatim>\<open>null\<close>, arrays and objects).\<close>

fun typeof_object :: "json \<Rightarrow> bool" where
  "typeof_object JNull = True"
| "typeof_object (JArr xs) = True"
| "typeof_object (JObj kvs) = True"
| "typeof_object _ = False"

text \<open>
  Strict equality \<^verbatim>\<open>a === b\<close>: by value on primitives, by reference on arrays and
  objects.  Two bodies parsed from different responses never share a reference, so an
  array or object is equal to nothing it is compared with here.
\<close>

fun strict_eq :: "json \<Rightarrow> json \<Rightarrow> bool" where
  "strict_eq (JArr xs) b = False"
| "strict_eq (JObj kvs) b = False"
| "strict_eq (JNum NaN) b = False"
| "strict_eq a b = (a = b)"

subsection \<open>Strings\<close>

text \<open>Decimal rendering of a non-negative integer, as a template literal prints it.\<close>

function show_nat :: "nat \<Rightarrow> string" where
  "show_nat n =
     (if n < 10 then [''0123456789'' ! n]
      else show_nat (n div 10) @ [''0123456789'' ! (n mod 10)])"
  by pat_completeness auto
termination
  by (relation "measure id") auto

declare show_nat.simps [simp del]

text \<open>
  \<^verbatim>\<open>s.trim()\<close> removes from both ends of \<open>s\<close> every code point that ECMAScript
  counts as \<^verbatim>\<open>WhiteSpace\<close> or \<^verbatim>\<open>LineTerminator\<close>: U+0009 to U+000D, U+0020, U+00A0,
  U+1680, U+2000 to U+200A, U+2028, U+2029, U+202F, U+205F, U+3000 and U+FEFF.  The list
  below has their UTF-8 encodings, in that order.  In well-formed UTF-8 no encoding is a
  prefix or a suffix of another code point's, so that matching bytes at either end of a
  string is matching code points.
\<close>

definition white_space :: "string list" where
  "white_space =
     [[CHR 0x09], [CHR 0x0A], [CHR 0x0B], [CHR 0x0C], [CHR 0x0D], [CHR 0x20],
      [CHR 0xC2, CHR 0xA0], [CHR 0xE1, CHR 0x9A, CHR 0x80],
      [CHR 0xE2, CHR 0x80, CHR 0x80], [CHR 0xE2, CHR 0x80, CHR 0x81],
      [CHR 0xE2, CHR 0x80, CHR 0x82], [CHR 0xE2, CHR 0x80, CHR 0x83],
      [CHR 0xE2, CHR 0x80, CHR 0x84], [CHR 0xE2, CHR 0x80, CHR 0x85],
      [CHR 0xE2, CHR 0x80, CHR 0x86], [CHR 0xE2, CHR 0x80, CHR 0x87],
      [CHR 0xE2, CHR 0x80, CHR 0x88], [CHR 0xE2, CHR 0x80, CHR 0x89],
      [CHR 0xE2, CHR 0x80, CHR 0x8A], [CHR 0xE2, CHR 0x80, CHR 0xA8],
      [CHR 0xE2, CHR 0x80, CHR 0xA9], [CHR 0xE2, CHR 0x80, CHR 0xAF],
      [CHR 0xE2, CHR 0x81, CHR 0x9F], [CHR 0xE3, CHR 0x80, CHR 0x80],
      [CHR 0xEF, CHR 0xBB, CHR 0xBF]]"

text \<open>The string without the tokens it starts with.\<close>

function stripLeading :: "string list \<Rightarrow> string \<Rightarrow> string" where
  "stripLeading tokens s =
     (case find (\<lambda>t. t \<noteq> [] \<and> take (length t) s = t) tokens of
        None \<Rightarrow> s
      | Some t \<Rightarrow> stripLeading tokens (drop (length t) s))"
  by pat_completeness auto
termination
proof (relation "measure (\<lambda>(tokens, s). length s)")
  fix tokens :: "string list" and s t :: string
  assume "find (\<lambda>t. t \<noteq> [] \<and> take (length t) s = t) tokens = Some t"
  then have "t \<noteq> []" and "take (length t) s = t"
    by (auto simp: find_Some_iff)
  then have "s \<noteq> []"
    by auto
  with \<open>t \<noteq> []\<close>
  show "((tokens, drop (length t) s), (tokens, s)) \<in> measure (\<lambda>(tokens, s). length s)"
    by simp
qed simp

declare stripLeading.simps [simp del]

definition trim :: "string \<Rightarrow> string" where
  "trim s = rev (stripLeading (map rev white_space) (rev (stripLeading white_space s)))"

text \<open>\<^verbatim>\<open>/^\\d+$/.test(s)\<close>\<close>

definition is_digit :: "char \<Rightarrow> bool" where
  "is_digit c = (c \<in> set ''0123456789'')"

definition all_digits :: "string \<Rightarrow> bool" where
  "all_digits s = (s \<noteq> [] \<and> list_all is_digit s)"

text \<open>\<^verbatim>\<open>s.includes(t)\<close>\<close>

fun includes_str :: "string \<Rightarrow> string \<Rightarrow> bool" where
  "includes_str [] t = (t = [])"
| "includes_str (c # s) t = (take (length t) (c # s) = t \<or> includes_str s t)"

text \<open>
  \<^verbatim>\<open>parseInt(s, 10)\<close> of a string of decimal digits (exact: the loss of precision of a
  double above \<open>2 ^ 53\<close> is not modelled).
\<close>

definition digit_val :: "char \<Rightarrow> nat" where
  "digit_val c = (case map_of (zip ''0123456789'' [0, 1, 2, 3, 4, 5, 6, 7, 8, 9]) c of
                    None \<Rightarrow> 0 | Some d \<Rightarrow> d)"

definition parseInt :: "string \<Rightarrow> nat" where
  "parseInt s = foldl (\<lambda>a c. 10 * a + digit_val c) 0 s"

text \<open>The characters beyond ASCII that the messages of the code contain, in UTF-8.\<close>

definition a_acute :: string where "a_acute = [CHR 0xC3, CHR 0xA1]"
definition e_acute :: string where "e_acute = [CHR 0xC3, CHR 0xA9]"
definition o_acute :: string where "o_acute = [CHR 0xC3, CHR 0xB3]"
definition O_acute :: string where "O_acute = [CHR 0xC3, CHR 0x93]"
definition n_tilde :: string where "n_tilde = [CHR 0xC3, CHR 0xB1]"
definition right_arrow :: string where "right_arrow = [CHR 0xE2, CHR 0x86, CHR 0x92]"
definition check_mark :: string where "check_mark = [CHR 0xE2, CHR 0x9C, CHR 0x85]"
definition cross_mark :: string where "cross_mark = [CHR 0xE2, CHR 0x9D, CHR 0x8C]"

text \<open>Two of the white-space code points beyond ASCII: U+00A0 and U+2028.\<close>

definition no_break_space :: string where "no_break_space = [CHR 0xC2, CHR 0xA0]"
definition line_separator :: string where "line_separator = [CHR 0xE2, CHR 0x80, CHR 0xA8]"

subsection \<open>Library functions taken as parameters\<close>

text \<open>
  What the JavaScript runtime and its libraries compute from a value is not part of the
  repository; the functions below are parameters of the model.
\<close>

record platform =
  JSON_stringify :: "json \<Rightarrow> string"
    \<comment> \<open>\<^verbatim>\<open>JSON.stringify(v)\<close>\<close>
  String_of :: "json \<Rightarrow> string"
    \<comment> \<open>\<^verbatim>\<open>String(v)\<close> of a value that is not a string\<close>
  parseFloat :: "json \<Rightarrow> jsnum"
  Intl_format_MXN :: "jsnum \<Rightarrow> string"
    \<comment> \<open>\<^verbatim>\<open>new Intl.NumberFormat('es-MX', {style: 'currency', currency: 'MXN'}).format\<close>\<close>
  Date_getTime :: "string \<Rightarrow> int option"
    \<comment> \<open>\<^verbatim>\<open>new Date(s).getTime()\<close> in milliseconds; \<open>None\<close> is \<^verbatim>\<open>NaN\<close> (an invalid date)\<close>
  dateApiToISO :: "int \<Rightarrow> json \<Rightarrow> string"
    \<comment> \<open>\<^verbatim>\<open>DataTransformer.dateApiToISO\<close>, all of it date-fns and \<^verbatim>\<open>Date\<close>; reads the clock\<close>
  toISOString :: "int \<Rightarrow> string"
  toLocaleString_MX :: "int \<Rightarrow> string"
    \<comment> \<open>\<^verbatim>\<open>toLocaleString('es-MX', ...)\<close> with the options of the note marker\<close>
  toLocaleDateString_MX :: "int \<Rightarrow> string"
  toLocaleTimeString_MX :: "int \<Rightarrow> string"
  toLowerCase :: "string \<Rightarrow> string"

text \<open>String conversion in a template literal or a \<^verbatim>\<open>+\<close> with a string.\<close>

fun toString :: "platform \<Rightarrow> json \<Rightarrow> string" where
  "toString P (JStr s) = s"
| "toString P v = String_of P v"

subsection \<open>Thrown values\<close>

text \<open>
  Everything thrown in this code is an \<^verbatim>\<open>Error\<close> object (a \<^verbatim>\<open>TypeError\<close> when a method
  is called on a value that has none): its constructor name and its message are all a
  handler can read from it.
\<close>

datatype js_error = JsError (err_name: string) (err_message: string)

section \<open>CacheManager (in-memory cache with TTL)\<close>

record CacheEntry =
  cvalue :: json
  expires :: int

record CacheStats =
  hits :: nat
  misses :: nat
  sets :: nat
  deletes :: nat
  clears :: nat

record CacheManager =
  cache :: "(string \<times> CacheEntry) list"
  stats :: CacheStats

definition new_CacheManager :: CacheManager where
  "new_CacheManager =
     \<lparr>cache = [], stats = \<lparr>hits = 0, misses = 0, sets = 0, deletes = 0, clears = 0\<rparr>\<rparr>"

text \<open>\<^verbatim>\<open>set(key, value, ttl)\<close>; \<open>now\<close> is the reading of \<^verbatim>\<open>Date.now()\<close>.\<close>

definition CacheManager_set :: "int \<Rightarrow> string \<Rightarrow> json \<Rightarrow> int \<Rightarrow> CacheManager \<Rightarrow> CacheManager" where
  "CacheManager_set now key v ttl c =
     c\<lparr>cache := AList.update key \<lparr>cvalue = v, expires = now + ttl\<rparr> (cache c),
       stats := (stats c)\<lparr>sets := sets (stats c) + 1\<rparr>\<rparr>"

text \<open>\<^verbatim>\<open>get(key)\<close>: the value or \<^verbatim>\<open>null\<close>, and the cache after the read.\<close>

definition CacheManager_get :: "int \<Rightarrow> string \<Rightarrow> CacheManager \<Rightarrow> json \<times> CacheManager" where
  "CacheManager_get now key c =
     (case map_of (cache c) key of
        None \<Rightarrow> (JNull, c\<lparr>stats := (stats c)\<lparr>misses := misses (stats c) + 1\<rparr>\<rparr>)
      | Some entry \<Rightarrow>
          if expires entry < now
          then (JNull,
                c\<lparr>cache := AList.delete key (cache c),
                  stats := (stats c)\<lparr>misses := misses (stats c) + 1,
                                     deletes := deletes (stats c) + 1\<rparr>\<rparr>)
          else (cvalue entry, c\<lparr>stats := (stats c)\<lparr>hits := hits (stats c) + 1\<rparr>\<rparr>))"

definition CacheManager_delete :: "string \<Rightarrow> CacheManager \<Rightarrow> bool \<times> CacheManager" where
  "CacheManager_delete key c =
     (if map_of (cache c) key \<noteq> None
      then (True, c\<lparr>cache := AList.delete key (cache c),
                    stats := (stats c)\<lparr>deletes := deletes (stats c) + 1\<rparr>\<rparr>)
      else (False, c))"

definition CacheManager_clear :: "CacheManager \<Rightarrow> CacheManager" where
  "CacheManager_clear c = c\<lparr>cache := [], stats := (stats c)\<lparr>clears := clears (stats c) + 1\<rparr>\<rparr>"

section \<open>DataTransformer\<close>

subsection \<open>Enum tables\<close>

text \<open>
  The tables are object literals read with \<^verbatim>\<open>TABLE[key] || default\<close>.  A table is an
  association list and a miss is \<open>None\<close>; the properties every object inherits
  (\<^verbatim>\<open>constructor\<close>, \<^verbatim>\<open>toString\<close>, ...) are not modelled as keys.  Ticket codes are
  integers.
\<close>

definition ESTADO_CLIENTE_MAP :: "(string \<times> string) list" where
  "ESTADO_CLIENTE_MAP =
     [(''Activo'', ''activo''), (''Suspendido'', ''suspendido''), (''Cancelado'', ''cancelado''),
      (''Cortado'', ''suspendido''), (''Inactivo'', ''cancelado'')]"

definition ESTADO_CLIENTE_REVERSE_MAP :: "(string \<times> string) list" where
  "ESTADO_CLIENTE_REVERSE_MAP =
     [(''activo'', ''Activo''), (''suspendido'', ''Suspendido''), (''cancelado'', ''Cancelado'')]"

definition ESTADO_TICKET_MAP :: "(int \<times> string) list" where
  "ESTADO_TICKET_MAP = [(1, ''nuevo''), (2, ''en_progreso''), (3, ''resuelto''), (4, ''cerrado'')]"

definition ESTADO_TICKET_REVERSE_MAP :: "(string \<times> int) list" where
  "ESTADO_TICKET_REVERSE_MAP =
     [(''nuevo'', 1), (''en_progreso'', 2), (''resuelto'', 3), (''cerrado'', 4)]"

definition PRIORIDAD_TICKET_MAP :: "(int \<times> string) list" where
  "PRIORIDAD_TICKET_MAP = [(1, ''baja''), (2, ''normal''), (3, ''alta''), (4, ''muy_alta'')]"

definition PRIORIDAD_TICKET_REVERSE_MAP :: "(string \<times> int) list" where
  "PRIORIDAD_TICKET_REVERSE_MAP = [(''baja'', 1), (''normal'', 2), (''alta'', 3), (''muy_alta'', 4)]"

text \<open>\<^verbatim>\<open>x || d\<close> for a looked-up string and for a looked-up number.\<close>

definition or_str :: "string option \<Rightarrow> string \<Rightarrow> string" where
  "or_str x d = (case x of None \<Rightarrow> d | Some v \<Rightarrow> if v \<noteq> [] then v else d)"

definition or_int :: "int option \<Rightarrow> int \<Rightarrow> int" where
  "or_int x d = (case x of None \<Rightarrow> d | Some v \<Rightarrow> if v \<noteq> 0 then v else d)"

definition estadoClienteStringToEnum :: "string \<Rightarrow> string" where
  "estadoClienteStringToEnum estado = or_str (map_of ESTADO_CLIENTE_MAP estado) ''cancelado''"

definition estadoTicketToString :: "int \<Rightarrow> string" where
  "estadoTicketToString estado = or_str (map_of ESTADO_TICKET_MAP estado) ''abierto''"

definition prioridadTicketToString :: "int \<Rightarrow> string" where
  "prioridadTicketToString prioridad = or_str (map_of PRIORIDAD_TICKET_MAP prioridad) ''media''"

definition estadoClienteEnumToString :: "string \<Rightarrow> string" where
  "estadoClienteEnumToString estado = or_str (map_of ESTADO_CLIENTE_REVERSE_MAP estado) ''Activo''"

definition estadoTicketToNumber :: "string \<Rightarrow> int" where
  "estadoTicketToNumber estado = or_int (map_of ESTADO_TICKET_REVERSE_MAP estado) 1"

definition prioridadTicketToNumber :: "string \<Rightarrow> int" where
  "prioridadTicketToNumber prioridad = or_int (map_of PRIORIDAD_TICKET_REVERSE_MAP prioridad) 2"

text \<open>\<^verbatim>\<open>isValidServicioId\<close> of a number: an integer above zero.\<close>

definition isValidServicioId :: "rat \<Rightarrow> bool" where
  "isValidServicioId n = (of_int \<lfloor>n\<rfloor> = n \<and> n > 0)"

definition formatMoney :: "platform \<Rightarrow> jsnum \<Rightarrow> string" where
  "formatMoney P amount = Intl_format_MXN P amount"

subsection \<open>Balances\<close>

text \<open>
  The balance body as \<^verbatim>\<open>saldoToUserFriendly\<close> reads it, with the field types that
  \<^verbatim>\<open>ApiSaldo\<close> and \<^verbatim>\<open>ApiFacturaPendiente\<close> declare: each field may be missing
  (\<open>None\<close>), the invoices come under \<^verbatim>\<open>facturas_pendientes\<close> or \<^verbatim>\<open>facturas\<close>, an amount
  under \<^verbatim>\<open>monto\<close> or \<^verbatim>\<open>total\<close>, an invoice id under \<^verbatim>\<open>id_factura\<close> or \<^verbatim>\<open>id\<close>.
\<close>

record ApiFacturaPendiente =
  api_id_factura :: "jsnum option"
  api_id :: "jsnum option"
  api_monto :: "jsnum option"
  api_total :: "jsnum option"
  api_fecha_vencimiento :: "string option"
  api_dias_vencido :: "jsnum option"

record ApiSaldo =
  api_id_servicio :: "jsnum option"
  api_saldo_actual :: "jsnum option"
  api_saldo :: "jsnum option"
  api_fecha_ultimo_pago :: "string option"
  api_facturas_pendientes :: "ApiFacturaPendiente list option"
  api_facturas :: "ApiFacturaPendiente list option"

text \<open>An invoice after the first \<^verbatim>\<open>map\<close> (\<^verbatim>\<open>facturasWithVencimiento\<close>).\<close>

record FacturaConVencimiento =
  fv_fecha_vencimiento :: "string option"
  fv_dias_vencido :: jsnum
  fv_monto :: jsnum
  fv_id_factura :: jsnum

datatype estado_vencimiento = vigente | vencida | muy_vencida

datatype estado_cuenta = al_corriente | con_atraso | muy_atrasado

record FacturaPendiente =
  id_factura :: jsnum
  monto_formateado :: string
  monto_numerico :: jsnum
  fecha_vencimiento :: string
  dias_vencido :: jsnum
  estado_vencimiento :: estado_vencimiento

record FacturasPendientes =
  cantidad :: nat
  total_adeudado :: string
  facturas :: "FacturaPendiente list"

record SaldoDetalle =
  saldo_id_servicio :: jsnum
  saldo_actual_formateado :: string
  saldo_actual_numerico :: jsnum
  fecha_ultimo_pago :: string
  estado_cuenta :: estado_cuenta
  facturas_pendientes :: FacturasPendientes

text \<open>Arithmetic and comparison of numbers; any comparison with \<^verbatim>\<open>NaN\<close> is false.\<close>

fun num_le :: "jsnum \<Rightarrow> jsnum \<Rightarrow> bool" where
  "num_le (Num a) (Num b) = (a \<le> b)"
| "num_le _ _ = False"

fun num_add :: "jsnum \<Rightarrow> jsnum \<Rightarrow> jsnum" where
  "num_add (Num a) (Num b) = Num (a + b)"
| "num_add _ _ = NaN"

fun Math_max2 :: "jsnum \<Rightarrow> jsnum \<Rightarrow> jsnum" where
  "Math_max2 (Num a) (Num b) = Num (max a b)"
| "Math_max2 _ _ = NaN"

text \<open>\<^verbatim>\<open>Math.max(x, ...xs)\<close> of one argument or more.\<close>

fun Math_max :: "jsnum \<Rightarrow> jsnum list \<Rightarrow> jsnum" where
  "Math_max x [] = x"
| "Math_max x (y # ys) = Math_max (Math_max2 x y) ys"

fun Math_ceil :: "jsnum \<Rightarrow> jsnum" where
  "Math_ceil (Num a) = Num (of_int \<lceil>a\<rceil>)"
| "Math_ceil NaN = NaN"

text \<open>\<^verbatim>\<open>x || 0\<close> of a field that may be missing.\<close>

definition or_zero :: "jsnum option \<Rightarrow> jsnum" where
  "or_zero x = (case x of None \<Rightarrow> Num 0 | Some n \<Rightarrow> if truthy_num n then n else Num 0)"

definition determinarEstadoCuenta :: "FacturaConVencimiento list \<Rightarrow> estado_cuenta" where
  "determinarEstadoCuenta fs =
     (case fs of
        [] \<Rightarrow> al_corriente
      | f # rest \<Rightarrow>
          let maxDiasVencido =
                Math_max (or_zero (Some (fv_dias_vencido f)))
                         (map (\<lambda>f. or_zero (Some (fv_dias_vencido f))) rest)
          in if num_le maxDiasVencido (Num 0) then al_corriente
             else if num_le maxDiasVencido (Num 30) then con_atraso
             else muy_atrasado)"

definition determinarEstadoVencimiento :: "jsnum \<Rightarrow> estado_vencimiento" where
  "determinarEstadoVencimiento diasVencido =
     (if num_le diasVencido (Num 0) then vigente
      else if num_le diasVencido (Num 30) then vencida
      else muy_vencida)"

text \<open>The body of the first \<^verbatim>\<open>map\<close>; \<open>hoy\<close> is the clock reading of \<^verbatim>\<open>new Date()\<close>.\<close>

definition withVencimiento :: "platform \<Rightarrow> int \<Rightarrow> ApiFacturaPendiente \<Rightarrow> FacturaConVencimiento" where
  "withVencimiento P hoy factura =
     (let diasVencido0 = or_zero (api_dias_vencido factura);
          diasVencido =
            (case api_fecha_vencimiento factura of
               None \<Rightarrow> diasVencido0
             | Some fecha \<Rightarrow>
                 if diasVencido0 = Num 0 \<and> fecha \<noteq> []
                 then
                   let diffTime = (case Date_getTime P fecha of
                                     None \<Rightarrow> NaN
                                   | Some fechaVencimiento \<Rightarrow> Num (of_int (hoy - fechaVencimiento)));
                       diffDays = Math_ceil (case diffTime of
                                               NaN \<Rightarrow> NaN
                                             | Num d \<Rightarrow> Num (d / (1000 * 60 * 60 * 24)))
                   in Math_max2 (Num 0) diffDays
                 else diasVencido0)
      in \<lparr>fv_fecha_vencimiento = api_fecha_vencimiento factura,
          fv_dias_vencido = diasVencido,
          fv_monto = (if truthy_num (or_zero (api_monto factura)) then or_zero (api_monto factura)
                      else or_zero (api_total factura)),
          fv_id_factura = (if truthy_num (or_zero (api_id_factura factura))
                           then or_zero (api_id_factura factura)
                           else or_zero (api_id factura))\<rparr>)"

definition opt_str :: "string option \<Rightarrow> json" where
  "opt_str x = (case x of None \<Rightarrow> JUndefined | Some s \<Rightarrow> JStr s)"

definition saldoToUserFriendly :: "platform \<Rightarrow> int \<Rightarrow> ApiSaldo \<Rightarrow> SaldoDetalle" where
  "saldoToUserFriendly P hoy apiSaldo =
     (let facturas0 = (case api_facturas_pendientes apiSaldo of
                         Some fs \<Rightarrow> fs
                       | None \<Rightarrow> (case api_facturas apiSaldo of Some fs \<Rightarrow> fs | None \<Rightarrow> []));
          facturasWithVencimiento = map (withVencimiento P hoy) facturas0;
          estadoCuenta = determinarEstadoCuenta facturasWithVencimiento;
          saldoRaw = (if truthy_num (or_zero (api_saldo_actual apiSaldo))
                      then or_zero (api_saldo_actual apiSaldo)
                      else or_zero (api_saldo apiSaldo))
      in \<lparr>saldo_id_servicio = or_zero (api_id_servicio apiSaldo),
          saldo_actual_formateado = formatMoney P saldoRaw,
          saldo_actual_numerico = saldoRaw,
          fecha_ultimo_pago = dateApiToISO P hoy (opt_str (api_fecha_ultimo_pago apiSaldo)),
          estado_cuenta = estadoCuenta,
          facturas_pendientes =
            \<lparr>cantidad = length facturasWithVencimiento,
             total_adeudado =
               formatMoney P
                 (fold (\<lambda>f sum. num_add sum (or_zero (Some (fv_monto f))))
                       facturasWithVencimiento (Num 0)),
             facturas =
               map (\<lambda>factura.
                      \<lparr>id_factura = fv_id_factura factura,
                       monto_formateado = formatMoney P (or_zero (Some (fv_monto factura))),
                       monto_numerico = or_zero (Some (fv_monto factura)),
                       fecha_vencimiento = dateApiToISO P hoy (opt_str (fv_fecha_vencimiento factura)),
                       dias_vencido = fv_dias_vencido factura,
                       estado_vencimiento = determinarEstadoVencimiento (fv_dias_vencido factura)\<rparr>)
                   facturasWithVencimiento\<rparr>\<rparr>)"

subsection \<open>Concrete balances\<close>

text \<open>
  One pending invoice due on 2024-01-01 with no days-overdue supplied; a balance with an
  empty invoice list; two pending invoices, due on 2024-01-01 and on 2024-01-31, that come
  under the alternative field names; and one pending invoice whose due date is written
  day/month/year, the form in which \<^verbatim>\<open>dateApiToISO\<close> documents the dates of the API
  (\<^verbatim>\<open>API format: "DD/MM/YYYY HH:mm" or "DD/MM/YYYY"\<close>).
\<close>

definition one_invoice :: ApiSaldo where
  "one_invoice =
     \<lparr>api_id_servicio = Some (Num 7), api_saldo_actual = Some (Num (- 500)), api_saldo = None,
      api_fecha_ultimo_pago = None,
      api_facturas_pendientes =
        Some [\<lparr>api_id_factura = Some (Num 1), api_id = None, api_monto = Some (Num 500),
               api_total = None, api_fecha_vencimiento = Some ''2024-01-01'',
               api_dias_vencido = None\<rparr>],
      api_facturas = None\<rparr>"

definition no_invoices :: ApiSaldo where
  "no_invoices =
     \<lparr>api_id_servicio = Some (Num 7), api_saldo_actual = Some (Num 0), api_saldo = None,
      api_fecha_ultimo_pago = None, api_facturas_pendientes = Some [], api_facturas = None\<rparr>"

definition two_invoices :: ApiSaldo where
  "two_invoices =
     \<lparr>api_id_servicio = Some (Num 7), api_saldo_actual = None, api_saldo = Some (Num (- 800)),
      api_fecha_ultimo_pago = None, api_facturas_pendientes = None,
      api_facturas =
        Some [\<lparr>api_id_factura = None, api_id = Some (Num 2), api_monto = None,
               api_total = Some (Num 300), api_fecha_vencimiento = Some ''2024-01-31'',
               api_dias_vencido = None\<rparr>,
              \<lparr>api_id_factura = None, api_id = Some (Num 1), api_monto = None,
               api_total = Some (Num 500), api_fecha_vencimiento = Some ''2024-01-01'',
               api_dias_vencido = None\<rparr>]\<rparr>"

definition day_month_year_invoice :: ApiSaldo where
  "day_month_year_invoice =
     \<lparr>api_id_servicio = Some (Num 7), api_saldo_actual = Some (Num (- 500)), api_saldo = None,
      api_fecha_ultimo_pago = None,
      api_facturas_pendientes =
        Some [\<lparr>api_id_factura = Some (Num 1), api_id = None, api_monto = Some (Num 500),
               api_total = None, api_fecha_vencimiento = Some ''15/01/2024'',
               api_dias_vencido = None\<rparr>],
      api_facturas = None\<rparr>"

text \<open>The clock \<open>n\<close> days after 2024-01-01 (epoch millisecond 1704067200000).\<close>

definition days_after_due :: "int \<Rightarrow> int" where
  "days_after_due n = 1704067200000 + n * 86400000"

section \<open>WispHubClient (HTTP client with retry, caching and error formatting)\<close>

record ServerConfig =
  retryAttempts :: nat
  cache_clientes :: int
  cache_tickets :: int
  cache_saldos :: int

text \<open>\<^verbatim>\<open>defaultConfig\<close>\<close>

definition defaultConfig :: ServerConfig where
  "defaultConfig =
     \<lparr>retryAttempts = 3, cache_clientes = 300000, cache_tickets = 300000, cache_saldos = 60000\<rparr>"

text \<open>
  The request configuration axios hands to the transport and back to the interceptors.
  \<open>retry\<close> and \<open>retryCount\<close> are the fields \<^verbatim>\<open>_retry\<close> and \<^verbatim>\<open>_retryCount\<close> that the
  response interceptor sets on it (\<open>None\<close> is \<^verbatim>\<open>undefined\<close>).
\<close>

record RequestConfig =
  req_method :: string \<comment> \<open>\<^verbatim>\<open>config.method\<close>\<close>
  url :: string
  params :: json
  body :: json
  retry :: bool
  retryCount :: "nat option"

record AxiosResponse =
  status :: nat
  rdata :: json

record AxiosError =
  response :: "AxiosResponse option"
  code :: "string option"
  message :: string
  config :: RequestConfig

text \<open>
  One exchange with the upstream server: a response with its status and parsed body, or
  no response at all (with axios' error code and message).  The transport is a parameter:
  it answers the \<open>n\<close>-th exchange of a run, given the request, and says how many
  milliseconds the exchange took.
\<close>

datatype transport_result =
    Responded nat json
  | NoResponse "string option" string

type_synonym transport = "nat \<Rightarrow> RequestConfig \<Rightarrow> transport_result \<times> int"

text \<open>
  The world a client instance lives in: the clock (\<^verbatim>\<open>Date.now()\<close>), the requests handed
  to the transport so far, the waits made by \<^verbatim>\<open>delay\<close>, and the instance's cache.
\<close>

record World =
  now :: int
  sent :: "RequestConfig list"
  delays :: "int list"
  httpCache :: CacheManager

definition new_World :: "int \<Rightarrow> World" where
  "new_World t = \<lparr>now = t, sent = [], delays = [], httpCache = new_CacheManager\<rparr>"

text \<open>\<^verbatim>\<open>delay(ms)\<close>\<close>

definition delay :: "int \<Rightarrow> World \<Rightarrow> World" where
  "delay ms w = w\<lparr>now := now w + ms, delays := delays w @ [ms]\<rparr>"

text \<open>\<^verbatim>\<open>shouldRetry\<close>: no response, or a status of 500 and above.\<close>

definition shouldRetry :: "AxiosError \<Rightarrow> bool" where
  "shouldRetry error = (case response error of None \<Rightarrow> True | Some r \<Rightarrow> status r \<ge> 500)"

text \<open>\<^verbatim>\<open>formatError\<close>\<close>

definition formatError :: "platform \<Rightarrow> AxiosError \<Rightarrow> js_error" where
  "formatError P error =
     (if (case response error of None \<Rightarrow> False | Some r \<Rightarrow> truthy (rdata r))
      then
        (case response error of
           Some r \<Rightarrow>
             let apiError = rdata r;
                 errorMessage =
                   jor (jor (jor (jor (getp apiError ''message'') (getp apiError ''error''))
                                 (getp apiError ''detail''))
                            (JStr (JSON_stringify P apiError)))
                       (JStr ''Unknown API error'')
             in JsError ''Error''
                  (''WispHub API Error ('' @ show_nat (status r) @ ''): '' @ toString P errorMessage))
      else if code error = Some ''ECONNABORTED''
      then JsError ''Error'' ''Request timeout - WispHub API is not responding''
      else JsError ''Error'' (''Network error: '' @ message error))"

text \<open>
  \<^verbatim>\<open>this.http(config)\<close>: one exchange through the transport, then the response
  interceptors.  Axios resolves a status in 200..299 and rejects anything else with an
  error carrying the request configuration, custom fields included; the rejection handler
  is the retry logic of \<^verbatim>\<open>setupInterceptors\<close>, which re-issues the request through
  \<^verbatim>\<open>this.http\<close> itself.
\<close>

function http :: "ServerConfig \<Rightarrow> platform \<Rightarrow> transport \<Rightarrow> RequestConfig \<Rightarrow> World
                    \<Rightarrow> (js_error + json) \<times> World" where
  "http cfg P T originalRequest w =
     (let (res, ms) = T (length (sent w)) originalRequest;
          w1 = w\<lparr>now := now w + ms, sent := sent w @ [originalRequest]\<rparr>;
          settled =
            (case res of
               Responded st b \<Rightarrow>
                 if 200 \<le> st \<and> st < 300 then Inr b
                 else Inl \<lparr>response = Some \<lparr>status = st, rdata = b\<rparr>,
                           code = (if 400 \<le> st \<and> st < 500 then Some ''ERR_BAD_REQUEST''
                                   else if 500 \<le> st \<and> st < 600 then Some ''ERR_BAD_RESPONSE''
                                   else None),
                           message = ''Request failed with status code '' @ show_nat st,
                           config = originalRequest\<rparr>
             | NoResponse c m \<Rightarrow>
                 Inl \<lparr>response = None, code = c, message = m, config = originalRequest\<rparr>)
      in case settled of
           Inr b \<Rightarrow> (Inr b, w1)
         | Inl error \<Rightarrow>
             if \<not> retry originalRequest \<and> shouldRetry error
             then
               let retryDelay = 2 ^ (case retryCount originalRequest of None \<Rightarrow> 0 | Some k \<Rightarrow> k) * 1000;
                   w2 = delay retryDelay w1;
                   count = (case retryCount originalRequest of None \<Rightarrow> 0 | Some k \<Rightarrow> k) + 1;
                   retried = originalRequest\<lparr>retry := True, retryCount := Some count\<rparr>
               in if count \<le> retryAttempts cfg
                  then http cfg P T retried w2
                  else (Inl (formatError P (error\<lparr>config := retried\<rparr>)), w2)
             else (Inl (formatError P error), w1))"
  by pat_completeness auto
termination
  by (relation "measure (\<lambda>(cfg, P, T, r, w). if retry r then 0 else 1)") auto

declare http.simps [simp del]

text \<open>\<^verbatim>\<open>getCacheKey\<close>\<close>

definition getCacheKey :: "platform \<Rightarrow> string \<Rightarrow> string \<Rightarrow> json \<Rightarrow> string" where
  "getCacheKey P meth endpoint ps =
     (let paramString = (if truthy ps then JSON_stringify P ps else [])
      in meth @ '':'' @ endpoint @ '':'' @ paramString)"

text \<open>
  \<^verbatim>\<open>get(endpoint, params, cacheTtl)\<close>; \<open>None\<close> is an omitted \<^verbatim>\<open>cacheTtl\<close>.
\<close>

definition WispHubClient_get ::
  "ServerConfig \<Rightarrow> platform \<Rightarrow> transport \<Rightarrow> string \<Rightarrow> json \<Rightarrow> int option \<Rightarrow> World
     \<Rightarrow> (js_error + json) \<times> World" where
  "WispHubClient_get cfg P T endpoint ps cacheTtl w =
     (let cacheKey = getCacheKey P ''GET'' endpoint ps;
          caching = (case cacheTtl of
                       None \<Rightarrow> None
                     | Some ttl \<Rightarrow> if ttl \<noteq> 0 \<and> ttl > 0 then Some ttl else None);
          (cached, w0) =
            (case caching of
               Some ttl \<Rightarrow> (let (v, c) = CacheManager_get (now w) cacheKey (httpCache w)
                            in (v, w\<lparr>httpCache := c\<rparr>))
             | None \<Rightarrow> (JUndefined, w))
      in if caching \<noteq> None \<and> truthy cached then (Inr cached, w0)
         else
           (case http cfg P T
                   \<lparr>req_method = ''get'', url = endpoint, params = ps, body = JUndefined,
                    retry = False, retryCount = None\<rparr> w0 of
              (Inl e, w1) \<Rightarrow> (Inl e, w1)
            | (Inr b, w1) \<Rightarrow>
                (case caching of
                   Some ttl \<Rightarrow>
                     (Inr b,
                      w1\<lparr>httpCache := CacheManager_set (now w1) cacheKey b ttl (httpCache w1)\<rparr>)
                 | None \<Rightarrow> (Inr b, w1))))"

text \<open>\<^verbatim>\<open>put(endpoint, data)\<close>: never cached.\<close>

definition WispHubClient_put ::
  "ServerConfig \<Rightarrow> platform \<Rightarrow> transport \<Rightarrow> string \<Rightarrow> json \<Rightarrow> World
     \<Rightarrow> (js_error + json) \<times> World" where
  "WispHubClient_put cfg P T endpoint d w =
     http cfg P T
       \<lparr>req_method = ''put'', url = endpoint, params = JUndefined, body = d,
        retry = False, retryCount = None\<rparr> w"

definition clearCache :: "World \<Rightarrow> World" where
  "clearCache w = w\<lparr>httpCache := CacheManager_clear (httpCache w)\<rparr>"

subsection \<open>Concrete runs of the client\<close>

text \<open>
  A platform, transports and errors on which the model is run below.  Of the date strings
  used below the platform reads the two in ISO form; \<^verbatim>\<open>new Date('15/01/2024')\<close> is an
  invalid date, as it is on Node.js (there is no month 15).
\<close>

definition ascii_lower :: "char \<Rightarrow> char" where
  "ascii_lower c =
     (case map_of (zip ''ABCDEFGHIJKLMNOPQRSTUVWXYZ'' ''abcdefghijklmnopqrstuvwxyz'') c of
        None \<Rightarrow> c | Some l \<Rightarrow> l)"

definition example_platform :: platform where
  "example_platform =
     \<lparr>JSON_stringify = (\<lambda>v. ''{}''),
      String_of = (\<lambda>v. case v of
                         JNum (Num r) \<Rightarrow> show_nat (nat \<lfloor>r\<rfloor>)
                       | JBool b \<Rightarrow> (if b then ''true'' else ''false'')
                       | JUndefined \<Rightarrow> ''undefined''
                       | _ \<Rightarrow> ''null''),
      parseFloat = (\<lambda>v. Num 0),
      Intl_format_MXN = (\<lambda>n. ''$0.00''),
      Date_getTime = map_of [(''2024-01-01'', 1704067200000), (''2024-01-31'', 1706659200000)],
      dateApiToISO = (\<lambda>t v. ''2024-01-01T00:00:00.000Z''),
      toISOString = (\<lambda>t. ''2024-02-10T00:00:00.000Z''),
      toLocaleString_MX = (\<lambda>t. ''10/02/2024, 10:00''),
      toLocaleDateString_MX = (\<lambda>t. ''10/02/2024''),
      toLocaleTimeString_MX = (\<lambda>t. ''10:00:00''),
      toLowerCase = map ascii_lower\<rparr>"

definition always_503 :: transport where
  "always_503 = (\<lambda>n r. (Responded 503 (JObj [(''detail'', JStr ''down'')]), 20))"

definition get_request :: "string \<Rightarrow> RequestConfig" where
  "get_request endpoint =
     \<lparr>req_method = ''get'', url = endpoint, params = JUndefined, body = JUndefined,
      retry = False, retryCount = None\<rparr>"

definition api_failure :: AxiosError where
  "api_failure =
     \<lparr>response = Some \<lparr>status = 404, rdata = JObj [(''detail'', JStr ''Not found.'')]\<rparr>,
      code = Some ''ERR_BAD_REQUEST'', message = ''Request failed with status code 404'',
      config = get_request ''/api/clientes/9/''\<rparr>"

definition network_failure :: AxiosError where
  "network_failure =
     \<lparr>response = None, code = Some ''ECONNREFUSED'', message = ''connect ECONNREFUSED'',
      config = get_request ''/api/clientes/9/''\<rparr>"

definition timeout_failure :: AxiosError where
  "timeout_failure =
     \<lparr>response = None, code = Some ''ECONNABORTED'', message = ''timeout of 30000ms exceeded'',
      config = get_request ''/api/clientes/9/''\<rparr>"

definition empty_body_failure :: AxiosError where
  "empty_body_failure =
     \<lparr>response = Some \<lparr>status = 502, rdata = JStr []\<rparr>,
      code = Some ''ERR_BAD_RESPONSE'', message = ''Request failed with status code 502'',
      config = get_request ''/api/clientes/9/''\<rparr>"

text \<open>
  A server that answers every request with 200 and the body \<^verbatim>\<open>null\<close>, and the world
  after one cached \<^verbatim>\<open>get\<close> against it.
\<close>

definition always_null :: transport where
  "always_null = (\<lambda>n r. (Responded 200 JNull, 5))"

definition after_first_get :: World where
  "after_first_get =
     snd (WispHubClient_get defaultConfig example_platform always_null
            ''/api/saldo/7/'' JUndefined (Some 60000) (new_World 0))"

section \<open>ClienteService\<close>

text \<open>
  The services log through \<^verbatim>\<open>Logger\<close>, which changes nothing they compute; the log
  calls are left out.  \<^verbatim>\<open>ToolResponse\<close> is the result every operation returns; a
  missing \<^verbatim>\<open>data\<close> or \<^verbatim>\<open>debugInfo\<close> is \<open>JUndefined\<close>.
\<close>

record ToolResponse =
  success :: bool
  data :: json
  error :: "string option"
  timestamp :: string
  debugInfo :: json

text \<open>
  \<^verbatim>\<open>TABLE[key] || 'cancelado'\<close> on a value typed \<^verbatim>\<open>any\<close>: a key that is not a string
  is converted to one.
\<close>

definition estadoClienteOf :: "platform \<Rightarrow> json \<Rightarrow> json" where
  "estadoClienteOf P estado = JStr (estadoClienteStringToEnum (toString P estado))"

text \<open>
  \<^verbatim>\<open>clienteToUserFriendly\<close>.  It throws a \<^verbatim>\<open>TypeError\<close> when the record is \<^verbatim>\<open>null\<close> or
  \<^verbatim>\<open>undefined\<close>, and when \<^verbatim>\<open>nombre\<close> is truthy and not a string (\<^verbatim>\<open>.trim\<close> is then not
  a function); the message of a \<^verbatim>\<open>TypeError\<close> is the engine's.
\<close>

definition clienteToUserFriendly :: "platform \<Rightarrow> int \<Rightarrow> json \<Rightarrow> js_error + json" where
  "clienteToUserFriendly P hoy apiCliente =
     (if apiCliente = JNull \<or> apiCliente = JUndefined
      then Inl (JsError ''TypeError'' ''Cannot read properties of null'')
      else
        (case jor (getp apiCliente ''nombre'') (JStr []) of
           JStr nombre \<Rightarrow>
             Inr (JObj
               [(''id_servicio'', getp apiCliente ''id_servicio''),
                (''usuario'', getp apiCliente ''usuario''),
                (''nombre_completo'', JStr (trim nombre)),
                (''email'', jor (getp apiCliente ''email'') (JStr [])),
                (''telefono'', jor (getp apiCliente ''telefono'') (JStr [])),
                (''direccion'', jor (getp apiCliente ''direccion'') (JStr [])),
                (''localidad'', jor (getp apiCliente ''localidad'') (JStr [])),
                (''ciudad'', jor (getp apiCliente ''ciudad'') (JStr [])),
                (''zona'', jor (getp (getp apiCliente ''zona'') ''id'') (JNum (Num 0))),
                (''zona_nombre'', jor (getp (getp apiCliente ''zona'') ''nombre'') (JStr [])),
                (''plan'', jor (getp (getp apiCliente ''plan_internet'') ''nombre'') (JStr [])),
                (''precio_plan'',
                   JStr (formatMoney P
                           (parseFloat P (jor (getp apiCliente ''precio_plan'') (JStr ''0''))))),
                (''estado'', estadoClienteOf P (getp apiCliente ''estado'')),
                (''estado_facturas'', jor (getp apiCliente ''estado_facturas'') (JStr [])),
                (''fecha_instalacion'',
                   JStr (dateApiToISO P hoy (getp apiCliente ''fecha_instalacion''))),
                (''fecha_corte'', JStr (dateApiToISO P hoy (getp apiCliente ''fecha_corte''))),
                (''fecha_ultimo_cambio'',
                   JStr (dateApiToISO P hoy (getp apiCliente ''ultimo_cambio''))),
                (''saldo_formateado'',
                   JStr (formatMoney P
                           (parseFloat P (jor (getp apiCliente ''saldo'') (JStr ''0''))))),
                (''saldo_numerico'',
                   JNum (parseFloat P (jor (getp apiCliente ''saldo'') (JStr ''0'')))),
                (''configuracion_red'',
                   JObj
                     [(''ip'', jor (getp apiCliente ''ip'') (JStr [])),
                      (''ip_local'', jor (getp apiCliente ''ip_local'') JUndefined),
                      (''mac'', jor (getp apiCliente ''mac_cpe'') (JStr [])),
                      (''interfaz_lan'', jor (getp apiCliente ''interfaz_lan'') (JStr [])),
                      (''router_nombre'',
                         jor (getp (getp apiCliente ''router'') ''nombre'') (JStr [])),
                      (''router_wifi'',
                         JObj
                           [(''modelo'', jor (getp apiCliente ''modelo_router_wifi'') (JStr [])),
                            (''ip'', jor (getp apiCliente ''ip_router_wifi'') JUndefined),
                            (''mac'', jor (getp apiCliente ''mac_router_wifi'') (JStr [])),
                            (''ssid'', jor (getp apiCliente ''ssid_router_wifi'') (JStr []))])]),
                (''tecnico'',
                   JObj
                     [(''id'', jor (getp (getp apiCliente ''tecnico'') ''id'') (JNum (Num 0))),
                      (''nombre'', jor (getp (getp apiCliente ''tecnico'') ''nombre'') (JStr []))]),
                (''comentarios'', jor (getp apiCliente ''comentarios'') (JStr [])),
                (''coordenadas'', jor (getp apiCliente ''coordenadas'') (JStr []))])
         | _ \<Rightarrow> Inl (JsError ''TypeError'' ''apiCliente.nombre.trim is not a function'')))"

text \<open>
  The record a response stands for, as each operation unwraps it: the first element of a
  bare array, the first element of a paginated envelope's \<^verbatim>\<open>results\<close>, a bare object
  itself; \<open>None\<close> when there is none.
\<close>

definition selectRecord :: "json \<Rightarrow> json option" where
  "selectRecord r =
     (if isArray r then (case r of JArr (x # xs) \<Rightarrow> Some x | _ \<Rightarrow> None)
      else if truthy r \<and> typeof_object r
      then (if has_key r ''results'' \<and> isArray (getp r ''results'')
            then (case getp r ''results'' of JArr (x # xs) \<Rightarrow> Some x | _ \<Rightarrow> None)
            else Some r)
      else None)"

text \<open>The same with \<^verbatim>\<open>null\<close> for no record, as the update operations keep it.\<close>

definition firstRecord :: "json \<Rightarrow> json" where
  "firstRecord r = (case selectRecord r of None \<Rightarrow> JNull | Some x \<Rightarrow> x)"

subsection \<open>Fetch one client, with bounded retry\<close>

text \<open>
  The body of the \<^verbatim>\<open>try\<close> block of one attempt up to the computed \<^verbatim>\<open>cliente\<close>: the
  thrown error, or the normalized client (\<open>JNull\<close> when no record was found) with the
  endpoint, the search parameters, the attempt's duration and \<^verbatim>\<open>useCache\<close>.
\<close>

definition invalid_id_error :: js_error where
  "invalid_id_error = JsError ''Error'' (''ID de servicio inv'' @ a_acute @ ''lido'')"

definition obtenerCliente_attempt ::
  "ServerConfig \<Rightarrow> platform \<Rightarrow> transport \<Rightarrow> string \<Rightarrow> nat \<Rightarrow> World
     \<Rightarrow> (js_error + json \<times> string \<times> json \<times> int \<times> int option) \<times> World" where
  "obtenerCliente_attempt cfg P T clienteId attempt w =
     (let isNumericId = all_digits clienteId;
          endpoint = (if isNumericId then ''/api/clientes/'' @ show_nat (parseInt clienteId) @ ''/''
                      else ''/api/clientes/'');
          searchParams = (if isNumericId then JObj []
                          else if includes_str clienteId ''@''
                          then JObj [(''email'', JStr clienteId)]
                          else JObj [(''search'', JStr clienteId)])
      in if isNumericId \<and> \<not> isValidServicioId (of_nat (parseInt clienteId))
         then (Inl invalid_id_error, w)
         else
           let attemptStart = now w;
               useCache = (if attempt = 1 then Some (cache_clientes cfg) else None)
           in (case WispHubClient_get cfg P T endpoint searchParams useCache w of
                 (Inl e, w1) \<Rightarrow> (Inl e, w1)
               | (Inr resp, w1) \<Rightarrow>
                   let attemptDuration = now w1 - attemptStart
                   in (case selectRecord resp of
                         None \<Rightarrow>
                           (Inr (JNull, endpoint, searchParams, attemptDuration, useCache), w1)
                       | Some x \<Rightarrow>
                           (case clienteToUserFriendly P (now w1) x of
                              Inl e \<Rightarrow> (Inl e, w1)
                            | Inr cliente \<Rightarrow>
                                (Inr (cliente, endpoint, searchParams, attemptDuration, useCache),
                                 w1)))))"

definition num_of_nat :: "nat \<Rightarrow> json" where
  "num_of_nat n = JNum (Num (of_nat n))"

definition num_of_int :: "int \<Rightarrow> json" where
  "num_of_int n = JNum (Num (of_int n))"

text \<open>The two records the \<^verbatim>\<open>try\<close> block pushes on \<^verbatim>\<open>attempts\<close>, and the one of \<^verbatim>\<open>catch\<close>.\<close>

definition attempt_entry :: "nat \<Rightarrow> int \<Rightarrow> bool \<Rightarrow> string \<Rightarrow> json \<Rightarrow> int option \<Rightarrow> json" where
  "attempt_entry attempt duration hasData endpoint searchParams useCache =
     JObj [(''attempt'', num_of_nat attempt), (''success'', JBool True),
           (''duration'', num_of_int duration), (''hasData'', JBool hasData),
           (''endpoint'', JStr endpoint), (''searchParams'', searchParams),
           (''usedCache'', JBool (case useCache of None \<Rightarrow> False | Some ttl \<Rightarrow> ttl \<noteq> 0))]"

definition failed_entry :: "nat \<Rightarrow> js_error \<Rightarrow> int \<Rightarrow> json" where
  "failed_entry attempt e duration =
     JObj [(''attempt'', num_of_nat attempt), (''success'', JBool False),
           (''error'', JStr (err_message e)), (''duration'', num_of_int duration)]"

text \<open>
  The loop of \<^verbatim>\<open>obtenerClienteWithRetry\<close> from attempt number \<open>attempt\<close> on; \<open>start\<close> is
  the clock reading at which \<^verbatim>\<open>Logger.startTimer()\<close> was called, so \<^verbatim>\<open>timer()\<close> is
  \<open>now w - start\<close>.
\<close>

function obtenerCliente_loop ::
  "ServerConfig \<Rightarrow> platform \<Rightarrow> transport \<Rightarrow> string \<Rightarrow> nat \<Rightarrow> int \<Rightarrow> nat \<Rightarrow> json list
     \<Rightarrow> js_error option \<Rightarrow> World \<Rightarrow> ToolResponse \<times> World" where
  "obtenerCliente_loop cfg P T clienteId maxRetries start attempt attempts lastError w =
     (if attempt \<le> maxRetries
      then
        (case obtenerCliente_attempt cfg P T clienteId attempt w of
           (Inr (cliente, endpoint, searchParams, attemptDuration, useCache), w1) \<Rightarrow>
             let attempts1 = attempts @ [attempt_entry attempt attemptDuration (truthy cliente)
                                            endpoint searchParams useCache]
             in if truthy cliente
                then (\<lparr>success = True, data = cliente, error = None,
                       timestamp = toISOString P (now w1),
                       debugInfo = JObj [(''attempts'', JArr attempts1),
                                         (''totalDuration'', num_of_int (now w1 - start)),
                                         (''successfulAttempt'', num_of_nat attempt),
                                         (''clienteId'', JStr clienteId),
                                         (''endpoint'', JStr endpoint),
                                         (''searchParams'', searchParams)]\<rparr>, w1)
                else if attempt = maxRetries
                then (\<lparr>success = True, data = JUndefined, error = None,
                       timestamp = toISOString P (now w1),
                       debugInfo = JObj [(''attempts'', JArr attempts1),
                                         (''totalDuration'', num_of_int (now w1 - start)),
                                         (''clienteId'', JStr clienteId),
                                         (''endpoint'', JStr endpoint),
                                         (''searchParams'', searchParams),
                                         (''noDataFound'', JBool True)]\<rparr>, w1)
                else obtenerCliente_loop cfg P T clienteId maxRetries start (attempt + 1)
                       (attempts1 @ [attempt_entry attempt attemptDuration False
                                       endpoint searchParams useCache])
                       lastError w1
         | (Inl e, w1) \<Rightarrow>
             let attemptDuration = now w1 - (now w1 - start);
                 attempts1 = attempts @ [failed_entry attempt e attemptDuration]
             in if attempt = maxRetries
                then obtenerCliente_loop cfg P T clienteId maxRetries start (maxRetries + 1)
                       attempts1 (Some e) w1
                else obtenerCliente_loop cfg P T clienteId maxRetries start (attempt + 1)
                       attempts1 (Some e) (delay (1000 * int attempt) w1))
      else
        (\<lparr>success = False, data = JUndefined,
          error = Some (''Error obteniendo cliente despu'' @ e_acute @ ''s de ''
                        @ show_nat maxRetries @ '' intentos: ''
                        @ (case lastError of None \<Rightarrow> ''null'' | Some e \<Rightarrow> err_message e)),
          timestamp = toISOString P (now w),
          debugInfo = JObj [(''attempts'', JArr attempts),
                            (''totalDuration'', num_of_int (now w - start)),
                            (''clienteId'', JStr clienteId),
                            (''maxRetries'', num_of_nat maxRetries),
                            (''allAttemptsFailed'', JBool True)]\<rparr>, w))"
  by pat_completeness auto
termination
  by (relation "measure (\<lambda>(cfg, P, T, cid, maxRetries, start, attempt, rest). Suc maxRetries - attempt)")
     auto

declare obtenerCliente_loop.simps [simp del]

definition obtenerClienteWithRetry ::
  "ServerConfig \<Rightarrow> platform \<Rightarrow> transport \<Rightarrow> string \<Rightarrow> nat \<Rightarrow> World \<Rightarrow> ToolResponse \<times> World" where
  "obtenerClienteWithRetry cfg P T clienteId maxRetries w =
     obtenerCliente_loop cfg P T clienteId maxRetries (now w) 1 [] None w"

definition obtenerCliente ::
  "ServerConfig \<Rightarrow> platform \<Rightarrow> transport \<Rightarrow> string \<Rightarrow> World \<Rightarrow> ToolResponse \<times> World" where
  "obtenerCliente cfg P T clienteId w = obtenerClienteWithRetry cfg P T clienteId 3 w"

subsection \<open>Update a client, then verify\<close>

record ActualizarClienteInput =
  id_servicio :: rat
  email :: "string option"
  telefono :: "string option"
  direccion :: "string option"
  localidad :: "string option"
  ciudad :: "string option"
  comentarios :: "string option"
  notificacion_sms :: "bool option"
  notificaciones_push :: "bool option"

text \<open>\<^verbatim>\<open>if (params.f !== undefined) apiData.f = params.f.trim()\<close>, and the same without
  \<^verbatim>\<open>trim\<close> for a flag.\<close>

definition put_str :: "string \<Rightarrow> string option \<Rightarrow> (string \<times> json) list \<Rightarrow> (string \<times> json) list" where
  "put_str k x obj = (case x of None \<Rightarrow> obj | Some v \<Rightarrow> AList.update k (JStr (trim v)) obj)"

definition put_flag :: "string \<Rightarrow> bool option \<Rightarrow> (string \<times> json) list \<Rightarrow> (string \<times> json) list" where
  "put_flag k x obj = (case x of None \<Rightarrow> obj | Some v \<Rightarrow> AList.update k (JBool v) obj)"

text \<open>The outbound payload \<^verbatim>\<open>apiData\<close>: only the fields that were provided.\<close>

definition apiData_of :: "ActualizarClienteInput \<Rightarrow> (string \<times> json) list" where
  "apiData_of ps =
     put_flag ''notificaciones_push'' (notificaciones_push ps)
       (put_flag ''notificacion_sms'' (notificacion_sms ps)
         (put_str ''comentarios'' (comentarios ps)
           (put_str ''ciudad'' (ciudad ps)
             (put_str ''localidad'' (localidad ps)
               (put_str ''direccion'' (direccion ps)
                 (put_str ''telefono'' (telefono ps)
                   (put_str ''email'' (email ps) [])))))))"

text \<open>\<^verbatim>\<open>${params.id_servicio}\<close> of a valid service id.\<close>

definition show_id :: "rat \<Rightarrow> string" where
  "show_id n = show_nat (nat \<lfloor>n\<rfloor>)"

definition endpointsToTry :: "rat \<Rightarrow> string list" where
  "endpointsToTry n =
     [''/api/clientes/'' @ show_id n @ ''/'',
      ''/api/clients/'' @ show_id n @ ''/'',
      ''/api/usuarios/'' @ show_id n @ ''/'',
      ''/api/contactos/'' @ show_id n @ ''/'']"

text \<open>
  The loop over the candidate endpoints, from the candidates \<open>es\<close> still to try: the first
  that answers gives \<^verbatim>\<open>response\<close> and \<^verbatim>\<open>usedEndpoint\<close>; a failure of the last
  candidate of the whole list \<open>allEndpoints\<close> is rethrown.
\<close>

fun tryEndpoints ::
  "ServerConfig \<Rightarrow> platform \<Rightarrow> transport \<Rightarrow> json \<Rightarrow> string list \<Rightarrow> string list \<Rightarrow> World
     \<Rightarrow> (js_error + json \<times> string) \<times> World" where
  "tryEndpoints cfg P T apiData allEndpoints [] w = (Inr (JNull, []), w)"
| "tryEndpoints cfg P T apiData allEndpoints (endpoint # es) w =
     (case WispHubClient_put cfg P T endpoint apiData w of
        (Inr resp, w1) \<Rightarrow> (Inr (resp, endpoint), w1)
      | (Inl endpointError, w1) \<Rightarrow>
          if endpoint = last allEndpoints then (Inl endpointError, w1)
          else tryEndpoints cfg P T apiData allEndpoints es w1)"

definition failure :: "platform \<Rightarrow> string \<Rightarrow> js_error \<Rightarrow> World \<Rightarrow> ToolResponse \<times> World" where
  "failure P prefix e w =
     (\<lparr>success = False, data = JUndefined, error = Some (prefix @ err_message e),
       timestamp = toISOString P (now w), debugInfo = JUndefined\<rparr>, w)"

text \<open>
  The end of \<^verbatim>\<open>actualizarCliente\<close> when verification did not yield a record: the result
  is built from the response of the write.
\<close>

definition actualizarCliente_fallback ::
  "platform \<Rightarrow> json \<Rightarrow> string \<Rightarrow> json \<Rightarrow> World \<Rightarrow> ToolResponse \<times> World" where
  "actualizarCliente_fallback P apiData usedEndpoint resp w =
     (case clienteToUserFriendly P (now w) resp of
        Inl e \<Rightarrow> failure P ''Error actualizando cliente: '' e w
      | Inr cliente \<Rightarrow>
          (\<lparr>success = True, data = cliente, error = None, timestamp = toISOString P (now w),
            debugInfo = JObj [(''method'', JStr ''PUT''), (''endpoint'', JStr usedEndpoint),
                              (''sentToAPI'', apiData), (''apiResponse'', resp),
                              (''verifiedCliente'', JNull), (''transformedCliente'', cliente),
                              (''verificationFailed'', JBool True)]\<rparr>, w))"

definition actualizarCliente ::
  "ServerConfig \<Rightarrow> platform \<Rightarrow> transport \<Rightarrow> ActualizarClienteInput \<Rightarrow> World
     \<Rightarrow> ToolResponse \<times> World" where
  "actualizarCliente cfg P T ps w =
     (if \<not> isValidServicioId (id_servicio ps)
      then failure P ''Error actualizando cliente: '' invalid_id_error w
      else if apiData_of ps = []
      then failure P ''Error actualizando cliente: ''
             (JsError ''Error'' ''Debe proporcionar al menos un campo para actualizar'') w
      else
        (case tryEndpoints cfg P T (JObj (apiData_of ps)) (endpointsToTry (id_servicio ps))
                (endpointsToTry (id_servicio ps)) w of
           (Inl e, w1) \<Rightarrow> failure P ''Error actualizando cliente: '' e w1
         | (Inr (resp, usedEndpoint), w1) \<Rightarrow>
             if \<not> truthy resp
             then failure P ''Error actualizando cliente: ''
                    (JsError ''Error''
                       (''La API no devolvi'' @ o_acute @ '' datos del cliente actualizado'')) w1
             else
               (case WispHubClient_get cfg P T
                       (''/api/clientes/'' @ show_id (id_servicio ps) @ ''/'') JUndefined None w1 of
                  (Inl verifyError, w2) \<Rightarrow>
                    actualizarCliente_fallback P (JObj (apiData_of ps)) usedEndpoint resp w2
                | (Inr verifyResponse, w2) \<Rightarrow>
                    let verifiedCliente = firstRecord verifyResponse
                    in if truthy verifiedCliente
                       then
                         (case clienteToUserFriendly P (now w2) verifiedCliente of
                            Inl verifyError \<Rightarrow>
                              actualizarCliente_fallback P (JObj (apiData_of ps)) usedEndpoint resp w2
                          | Inr cliente \<Rightarrow>
                              (\<lparr>success = True, data = cliente, error = None,
                                timestamp = toISOString P (now w2),
                                debugInfo =
                                  JObj [(''method'', JStr ''PUT''), (''endpoint'', JStr usedEndpoint),
                                        (''sentToAPI'', JObj (apiData_of ps)),
                                        (''apiResponse'', resp),
                                        (''verifiedCliente'', verifiedCliente),
                                        (''transformedCliente'', cliente)]\<rparr>, w2))
                       else actualizarCliente_fallback P (JObj (apiData_of ps)) usedEndpoint resp w2)))"

subsection \<open>The per-field verification of the update tool\<close>

text \<open>
  The tool \<^verbatim>\<open>actualizar_cliente\<close> renders the service's result; the block
  \<^verbatim>\<open>Check specific field updates\<close> of \<^verbatim>\<open>formatClienteUpdateResponse\<close> compares, for every
  entry of \<^verbatim>\<open>debugInfo.sentToAPI\<close>, the value sent with the field of
  \<^verbatim>\<open>debugInfo.verifiedCliente\<close> and pushes one line per field.
\<close>

fun entries :: "json \<Rightarrow> (string \<times> json) list" where
  "entries (JObj kvs) = kvs"
| "entries _ = []"

definition COINCIDE :: string where
  "COINCIDE = check_mark @ '' COINCIDE''"

definition NO_COINCIDE :: string where
  "NO_COINCIDE = cross_mark @ '' NO COINCIDE''"

definition verifiedFields :: "platform \<Rightarrow> json \<Rightarrow> string list" where
  "verifiedFields P dbg =
     (if truthy (getp dbg ''verifiedCliente'') \<and> truthy (getp dbg ''sentToAPI'')
      then map (\<lambda>(field, sentValue).
                  let currentValue = getp (getp dbg ''verifiedCliente'') field;
                      matches = strict_eq sentValue currentValue
                  in field @ '': '' @ toString P sentValue @ '' '' @ right_arrow @ '' ''
                     @ toString P currentValue @ '' '' @ right_arrow @ '' ''
                     @ (if matches then COINCIDE else NO_COINCIDE))
               (entries (getp dbg ''sentToAPI''))
      else [])"

section \<open>TicketService\<close>

subsection \<open>The payload of a ticket update\<close>

record ActualizarTicketUpdates =
  upd_estado :: "string option"
  upd_prioridad :: "string option"
  upd_tecnico :: "string option"
  upd_notas :: "string option"

text \<open>\<^verbatim>\<open>if (updates.f)\<close>: the value of a field that is present and not the empty string.\<close>

definition given :: "string option \<Rightarrow> string option" where
  "given x = (case x of None \<Rightarrow> None | Some s \<Rightarrow> if s \<noteq> [] then Some s else None)"

definition razonMap :: "(string \<times> string) list" where
  "razonMap =
     [(''nuevo'', []), (''en_progreso'', ''Internet Intermitente''), (''resuelto'', ''Otro''),
      (''cerrado'', ''Otro'')]"

text \<open>\<^verbatim>\<open>apiData\<close>: the changes asked for, with the reason code that goes with a status.\<close>

definition ticket_apiData :: "ActualizarTicketUpdates \<Rightarrow> (string \<times> json) list" where
  "ticket_apiData u =
     (let a1 = (case given (upd_estado u) of
                  Some estado \<Rightarrow>
                    let a = AList.update ''estado'' (num_of_int (estadoTicketToNumber estado)) []
                    in if \<not> truthy (getp (JObj a) ''razon_falla'')
                       then AList.update ''razon_falla''
                              (JStr (or_str (map_of razonMap estado) ''Otro'')) a
                       else a
                | None \<Rightarrow> []);
          a2 = (case given (upd_prioridad u) of
                  Some prioridad \<Rightarrow>
                    AList.update ''prioridad'' (num_of_int (prioridadTicketToNumber prioridad)) a1
                | None \<Rightarrow> a1)
      in case given (upd_tecnico u) of
           Some tecnico \<Rightarrow>
             let tecnicoTrimmed = trim tecnico
             in if all_digits tecnicoTrimmed \<or> includes_str tecnicoTrimmed ''@''
                then AList.update ''email_tecnico''
                       (JStr (if includes_str tecnicoTrimmed ''@'' then tecnicoTrimmed else []))
                       (AList.update ''tecnico'' (JStr tecnicoTrimmed) a2)
                else a2
         | None \<Rightarrow> a2)"

text \<open>\<^verbatim>\<open>getDefaultAsunto\<close>: the first keyword, in the order of the table, that the lowered
  subject contains.\<close>

definition asuntoMap :: "(string \<times> string) list" where
  "asuntoMap =
     [(''internet'', ''Internet Lento''), (''lento'', ''Internet Lento''),
      (''velocidad'', ''Internet Lento''), (''no internet'', ''No Tiene Internet''),
      (''sin internet'', ''No Tiene Internet''), (''conexion'', ''No Tiene Internet''),
      (''intermitente'', ''Internet Intermitente''), (''cortes'', ''Internet Intermitente''),
      (''desconexion'', ''Internet Intermitente''),
      (''antena'', ''Antena Desalineada''), (''router'', ''No Responde el Router Wifi''),
      (''wifi'', ''No Responde el Router Wifi''),
      (''cable'', ''Cable UTP Da'' @ n_tilde @ ''ado''), (''poe'', ''PoE Da'' @ n_tilde @ ''ado''),
      (''conector'', ''Conector Da'' @ n_tilde @ ''ado''),
      (''fibra'', ''Cable Fibra Da'' @ n_tilde @ ''ado''),
      (''jumper'', ''Jumper Da'' @ n_tilde @ ''ado''),
      (''cambio'', ''Cambio de Domicilio''), (''domicilio'', ''Cambio de Domicilio''),
      (''mudanza'', ''Cambio de Domicilio''), (''reconexion'', ''Reconexion''),
      (''reactivar'', ''Reconexion''), (''cancelacion'', ''Cancelaci'' @ o_acute @ ''n''),
      (''cancelar'', ''Cancelaci'' @ o_acute @ ''n''), (''baja'', ''Desconexi'' @ o_acute @ ''n''),
      (''recoleccion'', ''Recolecci'' @ o_acute @ ''n De Equipos'')]"

definition getDefaultAsunto :: "platform \<Rightarrow> string \<Rightarrow> string" where
  "getDefaultAsunto P asunto =
     (let asuntoLower = toLowerCase P asunto
      in case find (\<lambda>(keyword, defaultAsunto). includes_str asuntoLower keyword) asuntoMap of
           Some (keyword, defaultAsunto) \<Rightarrow> defaultAsunto
         | None \<Rightarrow> ''Otro Asunto'')"

text \<open>\<^verbatim>\<open>{ ...v }\<close>: the own enumerable properties of a value.\<close>

fun spread :: "json \<Rightarrow> (string \<times> json) list" where
  "spread (JObj kvs) = kvs"
| "spread (JArr xs) = zip (map show_nat [0..<length xs]) xs"
| "spread (JStr s) = zip (map show_nat [0..<length s]) (map (\<lambda>c. JStr [c]) s)"
| "spread _ = []"

text \<open>The steps of \<^verbatim>\<open>Clean and fix the data before merging\<close>, in order.\<close>

definition fix_prioridad :: "(string \<times> json) list \<Rightarrow> (string \<times> json) list" where
  "fix_prioridad c =
     (if strict_eq (getp (JObj c) ''prioridad'') (JStr ''Alta'')
      then AList.update ''prioridad'' (num_of_int 3) c
      else if strict_eq (getp (JObj c) ''prioridad'') (JStr ''Normal'')
      then AList.update ''prioridad'' (num_of_int 2) c
      else if strict_eq (getp (JObj c) ''prioridad'') (JStr ''Baja'')
      then AList.update ''prioridad'' (num_of_int 1) c
      else c)"

definition estadoMap :: "(string \<times> int) list" where
  "estadoMap = [(''Nuevo'', 1), (''En Progreso'', 2), (''Resuelto'', 3), (''Cerrado'', 4)]"

definition fix_estado :: "(string \<times> json) list \<Rightarrow> (string \<times> json) list" where
  "fix_estado c =
     (case getp (JObj c) ''estado'' of
        JStr s \<Rightarrow> AList.update ''estado'' (num_of_int (or_int (map_of estadoMap s) 1)) c
      | _ \<Rightarrow> c)"

definition fix_asuntos_default :: "platform \<Rightarrow> (string \<times> json) list \<Rightarrow> js_error + (string \<times> json) list" where
  "fix_asuntos_default P c =
     (if truthy (getp (JObj c) ''asunto'')
      then (case getp (JObj c) ''asunto'' of
              JStr asunto \<Rightarrow> Inr (AList.update ''asuntos_default'' (JStr (getDefaultAsunto P asunto)) c)
            | _ \<Rightarrow> Inl (JsError ''TypeError'' ''asunto.toLowerCase is not a function''))
      else Inr c)"

definition fix_origen_reporte :: "(string \<times> json) list \<Rightarrow> (string \<times> json) list" where
  "fix_origen_reporte c = AList.update ''origen_reporte'' (JStr ''portal_cliente'') c"

definition clean_tecnico :: "(string \<times> json) list \<Rightarrow> js_error + (string \<times> json) list" where
  "clean_tecnico c =
     (if \<not> truthy (getp (JObj c) ''tecnico'')
      then Inr (AList.delete ''email_tecnico'' (AList.delete ''tecnico'' c))
      else (case getp (JObj c) ''tecnico'' of
              JStr t \<Rightarrow> if trim t = []
                        then Inr (AList.delete ''email_tecnico'' (AList.delete ''tecnico'' c))
                        else Inr c
            | _ \<Rightarrow> Inl (JsError ''TypeError'' ''cleanedCurrentData.tecnico.trim is not a function'')))"

definition nota_marker :: "platform \<Rightarrow> int \<Rightarrow> string" where
  "nota_marker P hoy =
     [CHR 0x0A, CHR 0x0A] @ ''--- ACTUALIZACI'' @ O_acute @ ''N '' @ toLocaleString_MX P hoy
     @ '' ---'' @ [CHR 0x0A]"

definition append_notas ::
  "platform \<Rightarrow> int \<Rightarrow> ActualizarTicketUpdates \<Rightarrow> (string \<times> json) list \<Rightarrow> (string \<times> json) list" where
  "append_notas P hoy u c =
     (case given (upd_notas u) of
        Some notas \<Rightarrow>
          let currentDescripcion = jor (getp (JObj c) ''descripcion'') (JStr [])
          in AList.update ''descripcion''
               (JStr (toString P currentDescripcion @ nota_marker P hoy @ trim notas)) c
      | None \<Rightarrow> c)"

definition wisphubDateFormat :: "platform \<Rightarrow> int \<Rightarrow> string" where
  "wisphubDateFormat P hoy = toLocaleDateString_MX P hoy @ '' '' @ toLocaleTimeString_MX P hoy"

definition handle_dates ::
  "platform \<Rightarrow> int \<Rightarrow> ActualizarTicketUpdates \<Rightarrow> (string \<times> json) list \<Rightarrow> (string \<times> json) list" where
  "handle_dates P hoy u c =
     (case given (upd_estado u) of
        Some estado \<Rightarrow>
          (if estado = ''en_progreso''
           then (if \<not> truthy (getp (JObj c) ''fecha_inicio'')
                 then AList.update ''fecha_inicio'' (JStr (wisphubDateFormat P hoy)) c
                 else c)
           else if estado = ''resuelto'' \<or> estado = ''cerrado''
           then
             let c1 = AList.update ''finalizado_por'' (JStr ''admin@almacreativa'')
                        (AList.update ''fecha_fin'' (JStr (wisphubDateFormat P hoy)) c)
             in if \<not> truthy (getp (JObj c1) ''fecha_inicio'')
                then AList.update ''fecha_inicio'' (JStr (wisphubDateFormat P hoy)) c1
                else c1
           else c)
      | None \<Rightarrow> c)"

definition stripped_fields :: "string list" where
  "stripped_fields =
     [''tickets_mensual'', ''tickets_anual'', ''vencimiento'', ''archivo_ticket'', ''respuestas'']"

definition strip_fields :: "(string \<times> json) list \<Rightarrow> (string \<times> json) list" where
  "strip_fields c = fold AList.delete stripped_fields c"

text \<open>\<^verbatim>\<open>{ ...a, ...b }\<close> on objects.\<close>

definition spread_over :: "(string \<times> json) list \<Rightarrow> (string \<times> json) list \<Rightarrow> (string \<times> json) list" where
  "spread_over a b = fold (\<lambda>(k, v). AList.update k v) b a"

text \<open>
  \<^verbatim>\<open>putData\<close> from the record read upstream: the cleaning steps, then the merge with
  \<^verbatim>\<open>apiData\<close> and the ticket id.  A step that throws ends the operation.
\<close>

definition putData_of ::
  "platform \<Rightarrow> int \<Rightarrow> rat \<Rightarrow> ActualizarTicketUpdates \<Rightarrow> json \<Rightarrow> js_error + json" where
  "putData_of P hoy ticketId u completeTicketData =
     (case fix_asuntos_default P (fix_estado (fix_prioridad (spread completeTicketData))) of
        Inl e \<Rightarrow> Inl e
      | Inr c3 \<Rightarrow>
          (case clean_tecnico (fix_origen_reporte c3) of
             Inl e \<Rightarrow> Inl e
           | Inr c5 \<Rightarrow>
               let cleanedCurrentData = strip_fields (handle_dates P hoy u (append_notas P hoy u c5))
               in Inr (JObj (AList.update ''id_ticket'' (JNum (Num ticketId))
                               (spread_over cleanedCurrentData (ticket_apiData u))))))"

definition ticket_url :: "platform \<Rightarrow> rat \<Rightarrow> string" where
  "ticket_url P ticketId = ''/api/tickets/'' @ toString P (JNum (Num ticketId)) @ ''/''"

text \<open>
  \<^verbatim>\<open>actualizarTicket\<close> up to its \<^verbatim>\<open>PUT\<close>: the read of the current ticket, the merged
  payload, and the write.  The result is the response of the write, or the error that the
  operation's \<^verbatim>\<open>catch\<close> turns into a failure result.
\<close>

definition actualizarTicket_put ::
  "ServerConfig \<Rightarrow> platform \<Rightarrow> transport \<Rightarrow> rat \<Rightarrow> ActualizarTicketUpdates \<Rightarrow> World
     \<Rightarrow> (js_error + json) \<times> World" where
  "actualizarTicket_put cfg P T ticketId u w =
     (case WispHubClient_get cfg P T (ticket_url P ticketId) JUndefined None w of
        (Inl e, w1) \<Rightarrow> (Inl e, w1)
      | (Inr currentTicket, w1) \<Rightarrow>
          let completeTicketData = firstRecord currentTicket
          in if \<not> truthy completeTicketData
             then (Inl (JsError ''Error'' ''Could not get current ticket data for update''), w1)
             else (case putData_of P (now w1) ticketId u completeTicketData of
                     Inl e \<Rightarrow> (Inl e, w1)
                   | Inr putData \<Rightarrow> WispHubClient_put cfg P T (ticket_url P ticketId) putData w1))"

section \<open>Concrete runs of the services\<close>

text \<open>Servers, requests and records on which the services are run below.\<close>

fun elements :: "json \<Rightarrow> json list" where
  "elements (JArr xs) = xs"
| "elements _ = []"

text \<open>A field that the API types declare a string: a string, or missing or falsy.\<close>

definition string_or_falsy :: "json \<Rightarrow> bool" where
  "string_or_falsy v = (case v of JStr s \<Rightarrow> True | _ \<Rightarrow> \<not> truthy v)"

text \<open>A server that finds no client: every search answers 200 with an empty array.\<close>

definition always_empty :: transport where
  "always_empty = (\<lambda>n r. (Responded 200 (JArr []), 10))"

text \<open>The same for the first two exchanges; from the third on the server answers 503.\<close>

definition empty_then_503 :: transport where
  "empty_then_503 =
     (\<lambda>n r. if n < 2 then (Responded 200 (JArr []), 10) else (Responded 503 (JStr ''busy''), 10))"

text \<open>
  A server that acknowledges a client update by echoing the new comment and keeps the old
  one: a later read shows \<^verbatim>\<open>comentarios\<close> unchanged.
\<close>

definition ignores_comentarios :: transport where
  "ignores_comentarios =
     (\<lambda>n r. if req_method r = ''put''
             then (Responded 200
                     (JObj [(''id_servicio'', JNum (Num 5)), (''nombre'', JStr ''Ana''),
                            (''comentarios'', JStr ''x'')]), 30)
             else (Responded 200
                     (JObj [(''id_servicio'', JNum (Num 5)), (''nombre'', JStr ''Ana ''),
                            (''comentarios'', JStr ''viejo'')]), 20))"

definition only_comentarios :: ActualizarClienteInput where
  "only_comentarios =
     \<lparr>id_servicio = 5, email = None, telefono = None, direccion = None, localidad = None,
      ciudad = None, comentarios = Some ''x'', notificacion_sms = None,
      notificaciones_push = None\<rparr>"

definition stored_cliente :: json where
  "stored_cliente =
     JObj [(''id_servicio'', JNum (Num 5)), (''nombre'', JStr ''Ana ''),
           (''comentarios'', JStr ''viejo'')]"

definition echoed_cliente :: json where
  "echoed_cliente =
     JObj [(''id_servicio'', JNum (Num 5)), (''nombre'', JStr ''Ana''),
           (''comentarios'', JStr ''x'')]"

text \<open>
  A server that acknowledges the same update and then finds no client: the read answers
  200 with an empty array.
\<close>

definition loses_cliente :: transport where
  "loses_cliente =
     (\<lambda>n r. if req_method r = ''put''
             then (Responded 200
                     (JObj [(''id_servicio'', JNum (Num 5)), (''nombre'', JStr ''Ana''),
                            (''comentarios'', JStr ''x'')]), 30)
             else (Responded 200 (JArr []), 20))"

text \<open>A server that acknowledges it and reads back a record whose name is a number.\<close>

definition numeric_nombre :: transport where
  "numeric_nombre =
     (\<lambda>n r. if req_method r = ''put''
             then (Responded 200
                     (JObj [(''id_servicio'', JNum (Num 5)), (''nombre'', JStr ''Ana''),
                            (''comentarios'', JStr ''x'')]), 30)
             else (Responded 200
                     (JObj [(''id_servicio'', JNum (Num 5)), (''nombre'', JNum (Num 7)),
                            (''comentarios'', JStr ''viejo'')]), 20))"

text \<open>
  An update of three fields, the phone number padded with a no-break space and a space,
  and a server that stores the phone number and the flag and keeps the old comment; it
  answers a read with a paginated envelope.
\<close>

definition three_fields :: ActualizarClienteInput where
  "three_fields =
     \<lparr>id_servicio = 5, email = None, telefono = Some (no_break_space @ ''555 0101 ''),
      direccion = None, localidad = None, ciudad = None, comentarios = Some ''x'',
      notificacion_sms = Some True, notificaciones_push = None\<rparr>"

definition kept_cliente :: json where
  "kept_cliente =
     JObj [(''id_servicio'', JNum (Num 5)), (''nombre'', JStr ''Ana''),
           (''telefono'', JStr ''555 0101''), (''comentarios'', JStr ''viejo''),
           (''notificacion_sms'', JBool True)]"

definition keeps_comentarios :: transport where
  "keeps_comentarios =
     (\<lambda>n r. if req_method r = ''put''
             then (Responded 200
                     (JObj [(''id_servicio'', JNum (Num 5)), (''nombre'', JStr ''Ana''),
                            (''telefono'', JStr ''555 0101''), (''comentarios'', JStr ''x''),
                            (''notificacion_sms'', JBool True)]), 30)
             else (Responded 200
                     (JObj [(''count'', JNum (Num 1)), (''next'', JNull), (''previous'', JNull),
                            (''results'', JArr [kept_cliente])]), 20))"

definition put_request :: "string \<Rightarrow> json \<Rightarrow> RequestConfig" where
  "put_request endpoint d =
     \<lparr>req_method = ''put'', url = endpoint, params = JUndefined, body = d,
      retry = False, retryCount = None\<rparr>"

text \<open>
  A ticket server: a read answers ticket 42, a write echoes what it was sent.  The update
  resolves the ticket with a note that is padded with white space, some of it beyond ASCII.
\<close>

definition ticket_42 :: "(string \<times> json) list" where
  "ticket_42 =
     [(''id'', JNum (Num 42)), (''servicio'', JNum (Num 5)),
      (''asunto'', JStr ''Internet lento''), (''descripcion'', JStr ''No carga''),
      (''estado'', JStr ''Nuevo''), (''prioridad'', JStr ''Alta''),
      (''tecnico'', JStr []), (''respuestas'', JArr []), (''vencimiento'', JNull)]"

definition ticket_server :: transport where
  "ticket_server =
     (\<lambda>n r. if req_method r = ''get'' then (Responded 200 (JObj ticket_42), 20)
             else (Responded 200 (body r), 30))"

definition padded_note :: string where
  "padded_note = no_break_space @ '' Se cambio el router '' @ line_separator"

definition resolve_with_note :: ActualizarTicketUpdates where
  "resolve_with_note =
     \<lparr>upd_estado = Some ''resuelto'', upd_prioridad = None, upd_tecnico = None,
      upd_notas = Some padded_note\<rparr>"

section \<open>Properties of the cache\<close>

lemma map_of_cache_set:
  "map_of (cache (CacheManager_set t0 key v ttl c)) key = Some \<lparr>cvalue = v, expires = t0 + ttl\<rparr>"
  by (simp add: CacheManager_set_def update_conv')

text \<open>
  C6 (as the code has it).  After \<^verbatim>\<open>set(key, value, ttl)\<close> at time \<open>t0\<close>, a read at any
  time up to and including the expiry instant \<open>t0 + ttl\<close> returns the stored value,
  keeps the entry and counts a hit; a read strictly after the expiry instant returns
  \<^verbatim>\<open>null\<close>, removes the entry and counts a miss (and a delete), not a hit.
\<close>

theorem C6_get_after_set:
  fixes t0 t ttl :: int and key :: string and v :: json and c :: CacheManager
  assumes "0 < ttl"
  defines "c1 \<equiv> CacheManager_set t0 key v ttl c"
  shows "(t \<le> t0 + ttl \<longrightarrow>
            CacheManager_get t key c1
              = (v, c1\<lparr>stats := (stats c1)\<lparr>hits := hits (stats c1) + 1\<rparr>\<rparr>))
       \<and> (t0 + ttl < t \<longrightarrow>
            fst (CacheManager_get t key c1) = JNull
          \<and> map_of (cache (snd (CacheManager_get t key c1))) key = None
          \<and> key \<notin> fst ` set (cache (snd (CacheManager_get t key c1)))
          \<and> misses (stats (snd (CacheManager_get t key c1))) = misses (stats c1) + 1
          \<and> deletes (stats (snd (CacheManager_get t key c1))) = deletes (stats c1) + 1
          \<and> hits (stats (snd (CacheManager_get t key c1))) = hits (stats c1))"
proof -
  have e: "map_of (cache c1) key = Some \<lparr>cvalue = v, expires = t0 + ttl\<rparr>"
    unfolding c1_def by (rule map_of_cache_set)
  show ?thesis
    by (simp add: CacheManager_get_def e delete_conv' delete_notin_dom)
qed

theorem C6_get_after_set_witness:
  "(0::int) < 1000
   \<and> CacheManager_get 999 ''k'' (CacheManager_set 0 ''k'' (JStr ''v'') 1000 new_CacheManager)
       = (JStr ''v'',
          \<lparr>cache = [(''k'', \<lparr>cvalue = JStr ''v'', expires = 1000\<rparr>)],
           stats = \<lparr>hits = 1, misses = 0, sets = 1, deletes = 0, clears = 0\<rparr>\<rparr>)
   \<and> CacheManager_get 1001 ''k'' (CacheManager_set 0 ''k'' (JStr ''v'') 1000 new_CacheManager)
       = (JNull,
          \<lparr>cache = [],
           stats = \<lparr>hits = 0, misses = 1, sets = 1, deletes = 1, clears = 0\<rparr>\<rparr>)"
  using C6_get_after_set [of 1000 999 0 "''k''" "JStr ''v''" new_CacheManager]
        C6_get_after_set [of 1000 1001 0 "''k''" "JStr ''v''" new_CacheManager]
  by (simp add: CacheManager_get_def CacheManager_set_def new_CacheManager_def)

text \<open>
  C6 as stated fails at the expiry instant itself: the test is \<^verbatim>\<open>entry.expires < Date.now()\<close>,
  so a read at exactly \<open>t0 + ttl\<close> is a hit that returns the value and keeps the entry.
\<close>

theorem C6_expiry_instant_counterexample:
  "fst (CacheManager_get 1000 ''k'' (CacheManager_set 0 ''k'' (JStr ''v'') 1000 new_CacheManager))
       = JStr ''v''
   \<and> map_of (cache (snd (CacheManager_get 1000 ''k''
         (CacheManager_set 0 ''k'' (JStr ''v'') 1000 new_CacheManager)))) ''k''
       = Some \<lparr>cvalue = JStr ''v'', expires = 1000\<rparr>
   \<and> misses (stats (snd (CacheManager_get 1000 ''k''
         (CacheManager_set 0 ''k'' (JStr ''v'') 1000 new_CacheManager)))) = 0
   \<and> hits (stats (snd (CacheManager_get 1000 ''k''
         (CacheManager_set 0 ''k'' (JStr ''v'') 1000 new_CacheManager)))) = 1"
  by (simp add: CacheManager_get_def CacheManager_set_def new_CacheManager_def)

section \<open>Properties of the HTTP client\<close>

lemma sent_delay [simp]: "sent (delay ms w) = sent w"
  by (simp add: delay_def)

text \<open>A request that has been retried once is never retried again.\<close>

lemma http_retry_once:
  "retry r \<Longrightarrow> sent (snd (http cfg P T r w)) = sent w @ [r]"
  by (subst http.simps) (simp add: Let_def split: prod.splits transport_result.splits sum.splits)

text \<open>
  Every call of \<^verbatim>\<open>this.http\<close> hands the request to the transport, and at most once more:
  whatever \<^verbatim>\<open>retryAttempts\<close> is, a call makes one or two exchanges.
\<close>

lemma http_sent_prefix:
  "\<exists>rest. sent (snd (http cfg P T r w)) = sent w @ r # rest \<and> length rest \<le> 1"
proof (cases "retry r")
  case True
  then show ?thesis by (simp add: http_retry_once)
next
  case False
  show ?thesis
    by (subst http.simps)
       (simp add: Let_def http_retry_once split: prod.splits transport_result.splits sum.splits)
qed

text \<open>A client error (a status below 500) is surfaced after the one exchange, with no wait.\<close>

lemma http_client_error_not_retried:
  assumes "T (length (sent w)) r = (Responded st b, ms)" "400 \<le> st" "st < 500"
  shows "http cfg P T r w
           = (Inl (formatError P \<lparr>response = Some \<lparr>status = st, rdata = b\<rparr>,
                                  code = Some ''ERR_BAD_REQUEST'',
                                  message = ''Request failed with status code '' @ show_nat st,
                                  config = r\<rparr>),
              w\<lparr>now := now w + ms, sent := sent w @ [r]\<rparr>)"
  using assms by (subst http.simps) (simp add: Let_def shouldRetry_def)

text \<open>Every failure that \<^verbatim>\<open>this.http\<close> surfaces has gone through \<^verbatim>\<open>formatError\<close>.\<close>

lemma http_retried_failure:
  "retry r \<Longrightarrow> fst (http cfg P T r w) = Inl e \<Longrightarrow> \<exists>err. e = formatError P err"
  by (subst (asm) http.simps)
     (auto simp: Let_def split: prod.splits transport_result.splits sum.splits if_splits)

lemma http_failure_formatted:
  "fst (http cfg P T r w) = Inl e \<Longrightarrow> \<exists>err. e = formatError P err"
proof (cases "retry r")
  case True
  then show "fst (http cfg P T r w) = Inl e \<Longrightarrow> \<exists>err. e = formatError P err"
    by (rule http_retried_failure)
next
  case False
  assume "fst (http cfg P T r w) = Inl e"
  then show "\<exists>err. e = formatError P err"
    using False
    by (subst (asm) http.simps)
       (auto simp: Let_def dest: http_retried_failure [rotated]
             split: prod.splits transport_result.splits sum.splits if_splits)
qed

text \<open>
  C3 at the input of the specification: \<^verbatim>\<open>retryAttempts = 3\<close> and a transport that always
  answers 503.  The interceptor sets \<^verbatim>\<open>_retry\<close> on the request before the first retry and
  refuses any request that carries it, so the run makes two exchanges (one retry, after a
  wait of 1000 ms) and then surfaces the failure; the claim's four exchanges and three
  waits are never reached.
\<close>

theorem C3_always_503_two_attempts:
  "http defaultConfig example_platform always_503 (get_request ''/api/clientes/1/'') (new_World 0)
     = (Inl (JsError ''Error'' ''WispHub API Error (503): down''),
        \<lparr>now = 1040,
         sent = [get_request ''/api/clientes/1/'',
                 (get_request ''/api/clientes/1/'')\<lparr>retry := True, retryCount := Some 1\<rparr>],
         delays = [1000],
         httpCache = new_CacheManager\<rparr>)
   \<and> retryAttempts defaultConfig = 3"
  by (simp add: http.simps always_503_def get_request_def new_World_def defaultConfig_def
        shouldRetry_def delay_def formatError_def jor_def show_nat.simps example_platform_def
        Let_def)

text \<open>
  C4 (as the code has it).  Every failure that \<^verbatim>\<open>formatError\<close> surfaces is a plain
  \<^verbatim>\<open>Error\<close>; its kind is carried by the message alone.  A response with a truthy body
  gives \<^verbatim>\<open>WispHub API Error (status): msg\<close>, where \<^verbatim>\<open>msg\<close> is the first truthy of the
  body's \<^verbatim>\<open>message\<close>, \<^verbatim>\<open>error\<close> and \<^verbatim>\<open>detail\<close> fields and otherwise the serialized body;
  no response with code \<^verbatim>\<open>ECONNABORTED\<close> gives the timeout message; no response with any
  other code gives \<^verbatim>\<open>Network error: \<close> followed by the transport's message.
\<close>

theorem C4_formatError_kinds:
  "err_name (formatError P e) = ''Error''
   \<and> (\<forall>r. response e = Some r \<and> truthy (rdata r) \<longrightarrow>
          err_message (formatError P e)
            = ''WispHub API Error ('' @ show_nat (status r) @ ''): ''
              @ toString P
                  (if truthy (getp (rdata r) ''message'') then getp (rdata r) ''message''
                   else if truthy (getp (rdata r) ''error'') then getp (rdata r) ''error''
                   else if truthy (getp (rdata r) ''detail'') then getp (rdata r) ''detail''
                   else if JSON_stringify P (rdata r) \<noteq> [] then JStr (JSON_stringify P (rdata r))
                   else JStr ''Unknown API error''))
   \<and> (response e = None \<and> code e = Some ''ECONNABORTED'' \<longrightarrow>
          err_message (formatError P e) = ''Request timeout - WispHub API is not responding'')
   \<and> (response e = None \<and> code e \<noteq> Some ''ECONNABORTED'' \<longrightarrow>
          err_message (formatError P e) = ''Network error: '' @ message e)"
  by (auto simp: formatError_def jor_def Let_def split: option.splits)

theorem C4_formatError_kinds_witness:
  "formatError example_platform api_failure
     = JsError ''Error'' ''WispHub API Error (404): Not found.''
   \<and> formatError example_platform timeout_failure
     = JsError ''Error'' ''Request timeout - WispHub API is not responding''
   \<and> formatError example_platform network_failure
     = JsError ''Error'' ''Network error: connect ECONNREFUSED''"
  using C4_formatError_kinds [of example_platform api_failure]
        C4_formatError_kinds [of example_platform timeout_failure]
        C4_formatError_kinds [of example_platform network_failure]
  by (simp add: formatError_def api_failure_def timeout_failure_def network_failure_def
        jor_def show_nat.simps Let_def)

text \<open>
  C4 as stated fails.  The three kinds of failure come out as objects of one and the same
  class, \<^verbatim>\<open>Error\<close>, which differ in nothing but the text of the message; and a response
  that was received with an empty body (here a 502) is reported as a network error, without
  its status.
\<close>

theorem C4_same_class_counterexample:
  "err_name (formatError example_platform api_failure) = ''Error''
   \<and> err_name (formatError example_platform network_failure) = ''Error''
   \<and> err_name (formatError example_platform timeout_failure) = ''Error''
   \<and> formatError example_platform empty_body_failure
       = JsError ''Error'' ''Network error: Request failed with status code 502''"
  by (simp add: formatError_def api_failure_def timeout_failure_def network_failure_def
        empty_body_failure_def jor_def Let_def)

text \<open>
  A cached \<^verbatim>\<open>get\<close> that finds a present, unexpired entry whose value is truthy returns
  it and hands nothing to the transport.
\<close>

lemma get_truthy_entry_served:
  fixes ttl :: int
  assumes "0 < ttl"
    and "map_of (cache (httpCache w)) (getCacheKey P ''GET'' endpoint ps) = Some entry"
    and "\<not> expires entry < now w"
    and "truthy (cvalue entry)"
  shows "fst (WispHubClient_get cfg P T endpoint ps (Some ttl) w) = Inr (cvalue entry)
       \<and> sent (snd (WispHubClient_get cfg P T endpoint ps (Some ttl) w)) = sent w"
  using assms by (simp add: WispHubClient_get_def CacheManager_get_def Let_def)

text \<open>
  C10.  A cached \<^verbatim>\<open>get\<close> (\<^verbatim>\<open>cacheTtl > 0\<close>) that finds a present, unexpired entry whose
  value is falsy does not serve it: the request goes to the transport (the log of requests
  grows by this request), the result is the transport's, a successful body replaces the
  entry, and the cache itself has counted the read as a hit.
\<close>

theorem C10_falsy_entry_refetched:
  fixes ttl :: int
  assumes ttl: "0 < ttl"
    and entry: "map_of (cache (httpCache w)) (getCacheKey P ''GET'' endpoint ps) = Some entry"
    and unexpired: "\<not> expires entry < now w"
    and falsy: "\<not> truthy (cvalue entry)"
  defines "w0 \<equiv> w\<lparr>httpCache := (httpCache w)\<lparr>stats :=
                     (stats (httpCache w))\<lparr>hits := hits (stats (httpCache w)) + 1\<rparr>\<rparr>\<rparr>"
  defines "req \<equiv> \<lparr>req_method = ''get'', url = endpoint, params = ps, body = JUndefined,
                   retry = False, retryCount = None\<rparr>"
  shows "fst (WispHubClient_get cfg P T endpoint ps (Some ttl) w) = fst (http cfg P T req w0)
       \<and> (\<exists>rest. sent (snd (WispHubClient_get cfg P T endpoint ps (Some ttl) w))
                   = sent w @ req # rest)
       \<and> (\<forall>b. fst (http cfg P T req w0) = Inr b \<longrightarrow>
             snd (WispHubClient_get cfg P T endpoint ps (Some ttl) w)
               = (snd (http cfg P T req w0))
                   \<lparr>httpCache := CacheManager_set (now (snd (http cfg P T req w0)))
                                   (getCacheKey P ''GET'' endpoint ps) b ttl
                                   (httpCache (snd (http cfg P T req w0)))\<rparr>)"
proof -
  have g: "CacheManager_get (now w) (getCacheKey P ''GET'' endpoint ps) (httpCache w)
             = (cvalue entry, httpCache w0)"
    using entry unexpired by (simp add: CacheManager_get_def w0_def)
  have w0': "w\<lparr>httpCache := httpCache w0\<rparr> = w0"
    by (simp add: w0_def)
  obtain res w1 where h: "http cfg P T req w0 = (res, w1)"
    by (cases "http cfg P T req w0")
  have s: "\<exists>rest. sent w1 = sent w @ req # rest"
    using http_sent_prefix [of cfg P T req w0] h by (auto simp: w0_def)
  have eq: "WispHubClient_get cfg P T endpoint ps (Some ttl) w
              = (case res of
                   Inl e \<Rightarrow> (Inl e, w1)
                 | Inr b \<Rightarrow> (Inr b, w1\<lparr>httpCache :=
                              CacheManager_set (now w1) (getCacheKey P ''GET'' endpoint ps) b ttl
                                (httpCache w1)\<rparr>))"
    using ttl falsy h g
    by (simp add: WispHubClient_get_def Let_def req_def [symmetric] w0' split: sum.splits)
  show ?thesis
    using s by (cases res) (simp_all add: eq h)
qed


theorem C10_falsy_entry_refetched_witness:
  "map_of (cache (httpCache after_first_get)) ''GET:/api/saldo/7/:''
     = Some \<lparr>cvalue = JNull, expires = 60005\<rparr>
   \<and> now after_first_get = 5
   \<and> sent after_first_get = [get_request ''/api/saldo/7/'']
   \<and> fst (WispHubClient_get defaultConfig example_platform always_null
            ''/api/saldo/7/'' JUndefined (Some 60000) after_first_get) = Inr JNull
   \<and> sent (snd (WispHubClient_get defaultConfig example_platform always_null
            ''/api/saldo/7/'' JUndefined (Some 60000) after_first_get))
     = [get_request ''/api/saldo/7/'', get_request ''/api/saldo/7/'']
   \<and> hits (stats (httpCache (snd (WispHubClient_get defaultConfig example_platform always_null
            ''/api/saldo/7/'' JUndefined (Some 60000) after_first_get)))) = 1"
  using C10_falsy_entry_refetched [of 60000 after_first_get example_platform "''/api/saldo/7/''"
          JUndefined "\<lparr>cvalue = JNull, expires = 60005\<rparr>" defaultConfig always_null]
  by (simp add: after_first_get_def WispHubClient_get_def getCacheKey_def http.simps
        always_null_def new_World_def new_CacheManager_def CacheManager_get_def
        CacheManager_set_def get_request_def Let_def)

section \<open>Properties of the data transformer\<close>

text \<open>
  C8.  Each canonical client status survives the trip to the upstream string and back;
  each canonical ticket status and each canonical priority survives the trip to the
  upstream integer code and back.
\<close>

theorem C8_enum_round_trips:
  "(\<forall>v \<in> set [''activo'', ''suspendido'', ''cancelado''].
       estadoClienteStringToEnum (estadoClienteEnumToString v) = v)
   \<and> (\<forall>e \<in> set [''nuevo'', ''en_progreso'', ''resuelto'', ''cerrado''].
       estadoTicketToString (estadoTicketToNumber e) = e)
   \<and> (\<forall>p \<in> set [''baja'', ''normal'', ''alta'', ''muy_alta''].
       prioridadTicketToString (prioridadTicketToNumber p) = p)"
  by (simp add: estadoClienteStringToEnum_def estadoClienteEnumToString_def
        estadoTicketToString_def estadoTicketToNumber_def
        prioridadTicketToString_def prioridadTicketToNumber_def
        ESTADO_CLIENTE_MAP_def ESTADO_CLIENTE_REVERSE_MAP_def
        ESTADO_TICKET_MAP_def ESTADO_TICKET_REVERSE_MAP_def
        PRIORIDAD_TICKET_MAP_def PRIORIDAD_TICKET_REVERSE_MAP_def or_str_def or_int_def)

theorem C8_enum_round_trips_witness:
  "''suspendido'' \<in> set [''activo'', ''suspendido'', ''cancelado'']
   \<and> estadoClienteEnumToString ''suspendido'' = ''Suspendido''
   \<and> estadoClienteStringToEnum (estadoClienteEnumToString ''suspendido'') = ''suspendido''
   \<and> ''resuelto'' \<in> set [''nuevo'', ''en_progreso'', ''resuelto'', ''cerrado'']
   \<and> estadoTicketToNumber ''resuelto'' = 3
   \<and> estadoTicketToString (estadoTicketToNumber ''resuelto'') = ''resuelto''
   \<and> ''muy_alta'' \<in> set [''baja'', ''normal'', ''alta'', ''muy_alta'']
   \<and> prioridadTicketToNumber ''muy_alta'' = 4
   \<and> prioridadTicketToString (prioridadTicketToNumber ''muy_alta'') = ''muy_alta''"
  using C8_enum_round_trips
  by (simp add: estadoClienteEnumToString_def estadoTicketToNumber_def
        prioridadTicketToNumber_def ESTADO_CLIENTE_REVERSE_MAP_def
        ESTADO_TICKET_REVERSE_MAP_def PRIORIDAD_TICKET_REVERSE_MAP_def or_str_def or_int_def)

lemma Math_max_Num: "Math_max (Num a) (map Num rs) = Num (fold max rs a)"
  by (induction rs arbitrary: a) (simp_all add: max.commute)

text \<open>
  When every days-overdue is a number, the account tier follows the thresholds of the
  invoice tier on the largest of them.
\<close>

lemma determinarEstadoCuenta_numeric:
  assumes "map fv_dias_vencido fs = map Num ds"
  shows "determinarEstadoCuenta fs
           = (if ds = [] then al_corriente
              else if Max (set ds) \<le> 0 then al_corriente
              else if Max (set ds) \<le> 30 then con_atraso
              else muy_atrasado)"
proof (cases fs)
  case Nil
  with assms show ?thesis by (simp add: determinarEstadoCuenta_def)
next
  case (Cons f rest)
  with assms obtain d ds' where ds: "ds = d # ds'" "fv_dias_vencido f = Num d"
    "map fv_dias_vencido rest = map Num ds'"
    by (cases ds) auto
  have z: "or_zero (Some (Num r)) = Num r" for r
    by (simp add: or_zero_def)
  have "map (\<lambda>f. or_zero (Some (fv_dias_vencido f))) rest = map Num ds'"
  proof -
    have "map (\<lambda>f. or_zero (Some (fv_dias_vencido f))) rest
            = map (\<lambda>n. or_zero (Some n)) (map fv_dias_vencido rest)"
      by simp
    also have "\<dots> = map Num ds'"
      by (simp only: ds(3)) (simp add: z)
    finally show ?thesis .
  qed
  then have "Math_max (or_zero (Some (fv_dias_vencido f)))
               (map (\<lambda>f. or_zero (Some (fv_dias_vencido f))) rest)
             = Num (fold max ds' d)"
    by (simp only: ds(2) z Math_max_Num)
  also have "fold max ds' d = Max (set ds)"
    by (simp only: ds(1) Max.set_eq_fold)
  finally show ?thesis
    by (simp add: determinarEstadoCuenta_def Cons ds(1) Let_def)
qed

lemma withVencimiento_derived:
  assumes "api_dias_vencido f = None" "api_fecha_vencimiento f = Some d" "d \<noteq> []"
          "Date_getTime P d = Some t"
  shows "fv_dias_vencido (withVencimiento P hoy f)
           = Num (of_int (max 0 \<lceil>(of_int (hoy - t) :: rat) / 86400000\<rceil>))"
  using assms by (simp add: withVencimiento_def or_zero_def Let_def)

text \<open>
  Balances whose days-overdue come out numbers.  In the balance
  that \<^verbatim>\<open>saldoToUserFriendly\<close> returns there is one invoice per pending invoice of the
  body; an invoice that came without days-overdue and with a due date the platform can read
  has days-overdue \<open>max 0 \<lceil>(now - due) / day\<rceil>\<close>; an invoice whose days-overdue is a
  number is \<open>vigente\<close> up to 0 days, \<open>vencida\<close> up to 30 and \<open>muy_vencida\<close> above; and when
  all days-overdue are numbers, the account is \<open>al_corriente\<close> for an empty list and
  otherwise follows the same thresholds on the largest of them.
\<close>

lemma saldoToUserFriendly_numeric_days:
  fixes P :: platform and hoy :: int and apiSaldo :: ApiSaldo
  defines "fs \<equiv> (case api_facturas_pendientes apiSaldo of
                    Some fs \<Rightarrow> fs
                  | None \<Rightarrow> (case api_facturas apiSaldo of Some fs \<Rightarrow> fs | None \<Rightarrow> []))"
  defines "out \<equiv> facturas (facturas_pendientes (saldoToUserFriendly P hoy apiSaldo))"
  shows "length out = length fs
       \<and> (\<forall>i<length fs. \<forall>d t.
             api_dias_vencido (fs ! i) = None \<and> api_fecha_vencimiento (fs ! i) = Some d
             \<and> d \<noteq> [] \<and> Date_getTime P d = Some t
             \<longrightarrow> dias_vencido (out ! i)
                   = Num (of_int (max 0 \<lceil>(of_int (hoy - t) :: rat) / 86400000\<rceil>)))
       \<and> (\<forall>i<length out. \<forall>r. dias_vencido (out ! i) = Num r \<longrightarrow>
             estado_vencimiento (out ! i)
               = (if r \<le> 0 then vigente else if r \<le> 30 then vencida else muy_vencida))
       \<and> (\<forall>ds. map dias_vencido out = map Num ds \<longrightarrow>
             estado_cuenta (saldoToUserFriendly P hoy apiSaldo)
               = (if ds = [] then al_corriente
                  else if Max (set ds) \<le> 0 then al_corriente
                  else if Max (set ds) \<le> 30 then con_atraso
                  else muy_atrasado))"
proof -
  have out: "out = map (\<lambda>factura.
                      \<lparr>id_factura = fv_id_factura factura,
                       monto_formateado = formatMoney P (or_zero (Some (fv_monto factura))),
                       monto_numerico = or_zero (Some (fv_monto factura)),
                       fecha_vencimiento = dateApiToISO P hoy (opt_str (fv_fecha_vencimiento factura)),
                       dias_vencido = fv_dias_vencido factura,
                       estado_vencimiento = determinarEstadoVencimiento (fv_dias_vencido factura)\<rparr>)
                   (map (withVencimiento P hoy) fs)"
    by (simp add: out_def fs_def saldoToUserFriendly_def Let_def)
  have 1: "length out = length fs" by (simp add: out)
  have 2: "dias_vencido (out ! i) = Num (of_int (max 0 \<lceil>(of_int (hoy - t) :: rat) / 86400000\<rceil>))"
    if "i < length fs" "api_dias_vencido (fs ! i) = None" "api_fecha_vencimiento (fs ! i) = Some d"
       "d \<noteq> []" "Date_getTime P d = Some t" for i d t
    using that by (simp add: out withVencimiento_derived)
  have 3: "estado_vencimiento (out ! i)
             = (if r \<le> 0 then vigente else if r \<le> 30 then vencida else muy_vencida)"
    if "i < length out" "dias_vencido (out ! i) = Num r" for i r
    using that by (simp add: out determinarEstadoVencimiento_def)
  have 4: "estado_cuenta (saldoToUserFriendly P hoy apiSaldo)
             = (if ds = [] then al_corriente
                else if Max (set ds) \<le> 0 then al_corriente
                else if Max (set ds) \<le> 30 then con_atraso
                else muy_atrasado)"
    if "map dias_vencido out = map Num ds" for ds
  proof -
    have "map fv_dias_vencido (map (withVencimiento P hoy) fs) = map dias_vencido out"
      by (simp add: out)
    then have "map fv_dias_vencido (map (withVencimiento P hoy) fs) = map Num ds"
      using that by simp
    moreover have "estado_cuenta (saldoToUserFriendly P hoy apiSaldo)
                     = determinarEstadoCuenta (map (withVencimiento P hoy) fs)"
      by (simp add: fs_def saldoToUserFriendly_def Let_def)
    ultimately show ?thesis
      by (simp only: determinarEstadoCuenta_numeric)
  qed
  show ?thesis using 1 2 3 4 by blast
qed

text \<open>
  The examples of the specification (an invoice due 40 days ago, one due 10 days ago, an
  empty invoice list), and two invoices of which the older decides the account tier.
\<close>

lemma balance_examples:
  "map (\<lambda>f. (dias_vencido f, estado_vencimiento f))
       (facturas (facturas_pendientes
          (saldoToUserFriendly example_platform (days_after_due 40) one_invoice)))
     = [(Num 40, muy_vencida)]
   \<and> estado_cuenta (saldoToUserFriendly example_platform (days_after_due 40) one_invoice)
     = muy_atrasado
   \<and> map (\<lambda>f. (dias_vencido f, estado_vencimiento f))
       (facturas (facturas_pendientes
          (saldoToUserFriendly example_platform (days_after_due 10) one_invoice)))
     = [(Num 10, vencida)]
   \<and> estado_cuenta (saldoToUserFriendly example_platform (days_after_due 10) one_invoice)
     = con_atraso
   \<and> estado_cuenta (saldoToUserFriendly example_platform (days_after_due 10) no_invoices)
     = al_corriente
   \<and> map (\<lambda>f. (id_factura f, dias_vencido f, estado_vencimiento f))
       (facturas (facturas_pendientes
          (saldoToUserFriendly example_platform (days_after_due 40) two_invoices)))
     = [(Num 2, Num 10, vencida), (Num 1, Num 40, muy_vencida)]
   \<and> estado_cuenta (saldoToUserFriendly example_platform (days_after_due 40) two_invoices)
     = muy_atrasado"
  by (simp add: saldoToUserFriendly_def one_invoice_def no_invoices_def two_invoices_def
        days_after_due_def Let_def withVencimiento_def or_zero_def example_platform_def
        determinarEstadoCuenta_def determinarEstadoVencimiento_def)

text \<open>
  C7 at a due date the runtime cannot read.  An invoice that comes without days-overdue
  and with a due date for which \<^verbatim>\<open>new Date(s)\<close> is an invalid date is given \<^verbatim>\<open>NaN\<close>
  days-overdue, not \<open>max 0 \<lceil>(now - due) / day\<rceil>\<close>.  \<^verbatim>\<open>determinarEstadoVencimiento\<close>
  compares the \<^verbatim>\<open>NaN\<close> as it is and reports the invoice \<open>muy_vencida\<close>;
  \<^verbatim>\<open>determinarEstadoCuenta\<close> reads \<^verbatim>\<open>f.dias_vencido || 0\<close> and reports the account
  \<open>al_corriente\<close>.  With that one invoice pending, the two tiers are the tiers of one and
  the same days-overdue, and they disagree.
\<close>

theorem C7_unreadable_due_date:
  assumes "api_facturas_pendientes apiSaldo = Some [f]"
    and "api_dias_vencido f = None"
    and "api_fecha_vencimiento f = Some d"
    and "d \<noteq> []"
    and "Date_getTime P d = None"
  shows "map (\<lambda>i. (dias_vencido i, estado_vencimiento i))
           (facturas (facturas_pendientes (saldoToUserFriendly P hoy apiSaldo)))
         = [(NaN, muy_vencida)]
       \<and> estado_cuenta (saldoToUserFriendly P hoy apiSaldo) = al_corriente"
  using assms
  by (simp add: saldoToUserFriendly_def withVencimiento_def or_zero_def Let_def
        determinarEstadoCuenta_def determinarEstadoVencimiento_def)

theorem C7_unreadable_due_date_witness:
  "Date_getTime example_platform ''15/01/2024'' = None
   \<and> map (\<lambda>i. (id_factura i, dias_vencido i, estado_vencimiento i))
       (facturas (facturas_pendientes
          (saldoToUserFriendly example_platform (days_after_due 40) day_month_year_invoice)))
     = [(Num 1, NaN, muy_vencida)]
   \<and> estado_cuenta (saldoToUserFriendly example_platform (days_after_due 40)
        day_month_year_invoice) = al_corriente"
  using C7_unreadable_due_date [where apiSaldo = day_month_year_invoice
          and P = example_platform and d = "''15/01/2024''" and hoy = "days_after_due 40"]
  by (simp add: saldoToUserFriendly_def day_month_year_invoice_def Let_def
        withVencimiento_def or_zero_def example_platform_def
        determinarEstadoCuenta_def determinarEstadoVencimiento_def)

section \<open>Properties of the client service\<close>

lemmas client_defs =
  WispHubClient_get_def WispHubClient_put_def getCacheKey_def http.simps
  CacheManager_get_def CacheManager_set_def new_World_def new_CacheManager_def
  defaultConfig_def Let_def shouldRetry_def delay_def formatError_def jor_def

text \<open>
  C5 at the input of the specification: three attempts, each of which completes and finds
  no record.  The result is a success with no data, as the claim says; the trace, though,
  has five entries, not three: the \<^verbatim>\<open>try\<close> block pushes the attempt's record once as
  soon as the attempt has completed and, when no record was found and attempts remain,
  a second time before it continues.
\<close>

theorem C5_no_record_trace_has_five_entries:
  "success (fst (obtenerCliente defaultConfig example_platform always_empty
                   ''nadie@example.com'' (new_World 0)))
   \<and> data (fst (obtenerCliente defaultConfig example_platform always_empty
                   ''nadie@example.com'' (new_World 0))) = JUndefined
   \<and> map (\<lambda>a. getp a ''attempt'')
        (elements (getp (debugInfo (fst (obtenerCliente defaultConfig example_platform always_empty
                     ''nadie@example.com'' (new_World 0)))) ''attempts''))
      = [JNum (Num 1), JNum (Num 1), JNum (Num 2), JNum (Num 2), JNum (Num 3)]"
  by (simp add: obtenerCliente_def obtenerClienteWithRetry_def obtenerCliente_loop.simps
        obtenerCliente_attempt_def all_digits_def is_digit_def selectRecord_def
        attempt_entry_def num_of_nat_def always_empty_def example_platform_def client_defs)

text \<open>
  The last attempt alone decides a failure: two attempts that complete without error
  (and find nothing) followed by a third that fails give a failure result, flagged
  \<^verbatim>\<open>allAttemptsFailed\<close>.
\<close>

lemma obtenerCliente_last_attempt_decides:
  "\<not> success (fst (obtenerCliente defaultConfig example_platform empty_then_503
                     ''nadie@example.com'' (new_World 0)))
   \<and> map (\<lambda>a. (getp a ''attempt'', getp a ''success''))
        (elements (getp (debugInfo (fst (obtenerCliente defaultConfig example_platform
                     empty_then_503 ''nadie@example.com'' (new_World 0)))) ''attempts''))
      = [(JNum (Num 1), JBool True), (JNum (Num 1), JBool True), (JNum (Num 2), JBool True),
         (JNum (Num 2), JBool True), (JNum (Num 3), JBool False)]
   \<and> getp (debugInfo (fst (obtenerCliente defaultConfig example_platform empty_then_503
                     ''nadie@example.com'' (new_World 0)))) ''allAttemptsFailed'' = JBool True"
  by (simp add: obtenerCliente_def obtenerClienteWithRetry_def obtenerCliente_loop.simps
        obtenerCliente_attempt_def all_digits_def is_digit_def selectRecord_def
        attempt_entry_def failed_entry_def num_of_nat_def empty_then_503_def
        example_platform_def client_defs)

text \<open>The contact and comment fields of a normalized client are those of the record.\<close>

lemma clienteToUserFriendly_fields:
  assumes "clienteToUserFriendly P t v = Inr c"
  shows "getp c ''email'' = jor (getp v ''email'') (JStr [])"
    and "getp c ''telefono'' = jor (getp v ''telefono'') (JStr [])"
    and "getp c ''direccion'' = jor (getp v ''direccion'') (JStr [])"
    and "getp c ''localidad'' = jor (getp v ''localidad'') (JStr [])"
    and "getp c ''ciudad'' = jor (getp v ''ciudad'') (JStr [])"
    and "getp c ''comentarios'' = jor (getp v ''comentarios'') (JStr [])"
  using assms
  by (auto simp: clienteToUserFriendly_def split: if_splits json.splits)

text \<open>A record that is truthy and whose name is a string, or missing, normalizes.\<close>

lemma clienteToUserFriendly_typed:
  assumes "truthy v" and "string_or_falsy (getp v ''nombre'')"
  shows "\<exists>c. clienteToUserFriendly P t v = Inr c"
proof -
  have "v \<noteq> JNull" "v \<noteq> JUndefined"
    using assms(1) by auto
  moreover have "\<exists>s. jor (getp v ''nombre'') (JStr []) = JStr s"
    using assms(2) by (auto simp: jor_def string_or_falsy_def split: json.splits)
  ultimately show ?thesis
    by (auto simp: clienteToUserFriendly_def)
qed

text \<open>The record of a body, for each of the shapes a body comes in.\<close>

lemma firstRecord_array: "firstRecord (JArr (x # xs)) = x"
  by (simp add: firstRecord_def selectRecord_def)

lemma firstRecord_envelope:
  "map_of kvs ''results'' = Some (JArr (x # xs)) \<Longrightarrow> firstRecord (JObj kvs) = x"
  by (simp add: firstRecord_def selectRecord_def)

lemma firstRecord_object:
  "\<forall>xs. map_of kvs ''results'' \<noteq> Some (JArr xs) \<Longrightarrow> firstRecord (JObj kvs) = JObj kvs"
  by (cases "map_of kvs ''results''")
     (auto simp: firstRecord_def selectRecord_def split: json.splits)

lemma firstRecord_shape:
  assumes "verifyResponse = JArr (rec # others)
         \<or> verifyResponse = JObj kvs \<and> map_of kvs ''results'' = Some (JArr (rec # others))
         \<or> verifyResponse = JObj kvs \<and> rec = verifyResponse
             \<and> (\<forall>xs. map_of kvs ''results'' \<noteq> Some (JArr xs))"
  shows "firstRecord verifyResponse = rec"
  using assms firstRecord_array firstRecord_envelope firstRecord_object by auto

text \<open>
  The result of \<^verbatim>\<open>actualizarCliente\<close> when the write is acknowledged with a body and the
  read that follows yields a record that normalizes; and when the read yields no record,
  or one that does not normalize.
\<close>

lemma actualizarCliente_verified:
  assumes valid: "isValidServicioId (id_servicio ps)"
    and fields: "apiData_of ps \<noteq> []"
    and wr: "tryEndpoints cfg P T (JObj (apiData_of ps)) (endpointsToTry (id_servicio ps))
               (endpointsToTry (id_servicio ps)) w = (Inr (resp, usedEndpoint), w1)"
    and ack: "truthy resp"
    and refetch: "WispHubClient_get cfg P T (''/api/clientes/'' @ show_id (id_servicio ps) @ ''/'')
                    JUndefined None w1 = (Inr verifyResponse, w2)"
    and found: "truthy (firstRecord verifyResponse)"
    and norm: "clienteToUserFriendly P (now w2) (firstRecord verifyResponse) = Inr cliente"
  shows "actualizarCliente cfg P T ps w =
           (\<lparr>success = True, data = cliente, error = None, timestamp = toISOString P (now w2),
             debugInfo =
               JObj [(''method'', JStr ''PUT''), (''endpoint'', JStr usedEndpoint),
                     (''sentToAPI'', JObj (apiData_of ps)), (''apiResponse'', resp),
                     (''verifiedCliente'', firstRecord verifyResponse),
                     (''transformedCliente'', cliente)]\<rparr>, w2)"
  using assms by (simp add: actualizarCliente_def Let_def)

lemma actualizarCliente_unverified:
  assumes valid: "isValidServicioId (id_servicio ps)"
    and fields: "apiData_of ps \<noteq> []"
    and wr: "tryEndpoints cfg P T (JObj (apiData_of ps)) (endpointsToTry (id_servicio ps))
               (endpointsToTry (id_servicio ps)) w = (Inr (resp, usedEndpoint), w1)"
    and ack: "truthy resp"
    and refetch: "WispHubClient_get cfg P T (''/api/clientes/'' @ show_id (id_servicio ps) @ ''/'')
                    JUndefined None w1 = (Inr verifyResponse, w2)"
    and unverified: "\<not> truthy (firstRecord verifyResponse)
                   \<or> clienteToUserFriendly P (now w2) (firstRecord verifyResponse) = Inl e"
    and fallback: "clienteToUserFriendly P (now w2) resp = Inr cliente"
  shows "actualizarCliente cfg P T ps w =
           (\<lparr>success = True, data = cliente, error = None, timestamp = toISOString P (now w2),
             debugInfo =
               JObj [(''method'', JStr ''PUT''), (''endpoint'', JStr usedEndpoint),
                     (''sentToAPI'', JObj (apiData_of ps)), (''apiResponse'', resp),
                     (''verifiedCliente'', JNull), (''transformedCliente'', cliente),
                     (''verificationFailed'', JBool True)]\<rparr>, w2)"
  using assms
  by (auto simp: actualizarCliente_def actualizarCliente_fallback_def Let_def)

text \<open>The outbound payload, field by field.\<close>

lemma map_of_put_str:
  "map_of (put_str k x obj) k
     = (case x of None \<Rightarrow> map_of obj k | Some v \<Rightarrow> Some (JStr (trim v)))"
  "k' \<noteq> k \<Longrightarrow> map_of (put_str k x obj) k' = map_of obj k'"
  by (simp_all add: put_str_def update_conv' split: option.split)

lemma map_of_put_flag:
  "map_of (put_flag k x obj) k
     = (case x of None \<Rightarrow> map_of obj k | Some v \<Rightarrow> Some (JBool v))"
  "k' \<noteq> k \<Longrightarrow> map_of (put_flag k x obj) k' = map_of obj k'"
  by (simp_all add: put_flag_def update_conv' split: option.split)

lemma map_of_apiData_of:
  "map_of (apiData_of ps) ''email'' = map_option (\<lambda>v. JStr (trim v)) (email ps)"
  "map_of (apiData_of ps) ''telefono'' = map_option (\<lambda>v. JStr (trim v)) (telefono ps)"
  "map_of (apiData_of ps) ''direccion'' = map_option (\<lambda>v. JStr (trim v)) (direccion ps)"
  "map_of (apiData_of ps) ''localidad'' = map_option (\<lambda>v. JStr (trim v)) (localidad ps)"
  "map_of (apiData_of ps) ''ciudad'' = map_option (\<lambda>v. JStr (trim v)) (ciudad ps)"
  "map_of (apiData_of ps) ''comentarios'' = map_option (\<lambda>v. JStr (trim v)) (comentarios ps)"
  "map_of (apiData_of ps) ''notificacion_sms'' = map_option JBool (notificacion_sms ps)"
  "map_of (apiData_of ps) ''notificaciones_push'' = map_option JBool (notificaciones_push ps)"
  by (simp_all add: apiData_of_def map_of_put_str map_of_put_flag split: option.split)

lemma apiData_of_sent_string:
  assumes "(k, Some s) \<in> set [(''email'', email ps), (''telefono'', telefono ps),
                               (''direccion'', direccion ps), (''localidad'', localidad ps),
                               (''ciudad'', ciudad ps), (''comentarios'', comentarios ps)]"
  shows "(k, JStr (trim s)) \<in> set (apiData_of ps)"
proof -
  from assms consider "k = ''email''" "email ps = Some s"
    | "k = ''telefono''" "telefono ps = Some s"
    | "k = ''direccion''" "direccion ps = Some s"
    | "k = ''localidad''" "localidad ps = Some s"
    | "k = ''ciudad''" "ciudad ps = Some s"
    | "k = ''comentarios''" "comentarios ps = Some s"
    by auto
  then have "map_of (apiData_of ps) k = Some (JStr (trim s))"
    by cases (simp_all add: map_of_apiData_of)
  then show ?thesis by (rule map_of_SomeD)
qed

lemma apiData_of_sent_flag:
  assumes "(k, Some b) \<in> set [(''notificacion_sms'', notificacion_sms ps),
                               (''notificaciones_push'', notificaciones_push ps)]"
  shows "(k, JBool b) \<in> set (apiData_of ps)"
proof -
  from assms consider "k = ''notificacion_sms''" "notificacion_sms ps = Some b"
    | "k = ''notificaciones_push''" "notificaciones_push ps = Some b"
    by auto
  then have "map_of (apiData_of ps) k = Some (JBool b)"
    by cases (simp_all add: map_of_apiData_of)
  then show ?thesis by (rule map_of_SomeD)
qed

text \<open>The scenario of the specification, step by step.\<close>

lemma scenario_valid: "isValidServicioId (id_servicio only_comentarios)"
  by (simp add: only_comentarios_def isValidServicioId_def)

lemma scenario_fields: "apiData_of only_comentarios = [(''comentarios'', JStr ''x'')]"
  by (simp add: apiData_of_def only_comentarios_def put_str_def put_flag_def trim_def
        white_space_def stripLeading.simps)

lemma scenario_show_id: "show_id (id_servicio only_comentarios) = ''5''"
  by (simp add: only_comentarios_def show_id_def show_nat.simps)

lemma scenario_write:
  "tryEndpoints defaultConfig example_platform ignores_comentarios
     (JObj (apiData_of only_comentarios)) (endpointsToTry (id_servicio only_comentarios))
     (endpointsToTry (id_servicio only_comentarios)) (new_World 0)
   = (Inr (echoed_cliente, ''/api/clientes/5/''),
      \<lparr>now = 30, sent = [put_request ''/api/clientes/5/'' (JObj [(''comentarios'', JStr ''x'')])],
       delays = [], httpCache = new_CacheManager\<rparr>)"
  by (simp add: scenario_fields scenario_show_id endpointsToTry_def ignores_comentarios_def
        echoed_cliente_def put_request_def client_defs)

lemma scenario_refetch:
  "WispHubClient_get defaultConfig example_platform ignores_comentarios
     (''/api/clientes/'' @ show_id (id_servicio only_comentarios) @ ''/'') JUndefined None
     \<lparr>now = 30, sent = [put_request ''/api/clientes/5/'' (JObj [(''comentarios'', JStr ''x'')])],
      delays = [], httpCache = new_CacheManager\<rparr>
   = (Inr stored_cliente,
      \<lparr>now = 50,
       sent = [put_request ''/api/clientes/5/'' (JObj [(''comentarios'', JStr ''x'')]),
               get_request ''/api/clientes/5/''],
       delays = [], httpCache = new_CacheManager\<rparr>)"
  by (simp add: scenario_show_id ignores_comentarios_def stored_cliente_def put_request_def
        get_request_def client_defs)

lemma scenario_shape:
  "stored_cliente = JObj [(''id_servicio'', JNum (Num 5)), (''nombre'', JStr ''Ana ''),
                          (''comentarios'', JStr ''viejo'')]
   \<and> stored_cliente = stored_cliente
   \<and> (\<forall>xs. map_of [(''id_servicio'', JNum (Num 5)), (''nombre'', JStr ''Ana ''),
                     (''comentarios'', JStr ''viejo'')] ''results'' \<noteq> Some (JArr xs))"
  by (simp add: stored_cliente_def)

lemma scenario_record:
  "truthy stored_cliente" "string_or_falsy (getp stored_cliente ''nombre'')"
  "getp stored_cliente ''comentarios'' = JStr ''viejo''"
  by (simp_all add: stored_cliente_def string_or_falsy_def)

lemma scenario_nombre:
  "clienteToUserFriendly example_platform t stored_cliente = Inr c
     \<Longrightarrow> getp c ''nombre_completo'' = JStr ''Ana''"
  by (auto simp: clienteToUserFriendly_def stored_cliente_def jor_def trim_def
        white_space_def stripLeading.simps)

text \<open>The same update against the server that finds no client afterwards.\<close>

lemma loses_write:
  "tryEndpoints defaultConfig example_platform loses_cliente
     (JObj (apiData_of only_comentarios)) (endpointsToTry (id_servicio only_comentarios))
     (endpointsToTry (id_servicio only_comentarios)) (new_World 0)
   = (Inr (echoed_cliente, ''/api/clientes/5/''),
      \<lparr>now = 30, sent = [put_request ''/api/clientes/5/'' (JObj [(''comentarios'', JStr ''x'')])],
       delays = [], httpCache = new_CacheManager\<rparr>)"
  by (simp add: scenario_fields scenario_show_id endpointsToTry_def loses_cliente_def
        echoed_cliente_def put_request_def client_defs)

lemma loses_refetch:
  "WispHubClient_get defaultConfig example_platform loses_cliente
     (''/api/clientes/'' @ show_id (id_servicio only_comentarios) @ ''/'') JUndefined None
     \<lparr>now = 30, sent = [put_request ''/api/clientes/5/'' (JObj [(''comentarios'', JStr ''x'')])],
      delays = [], httpCache = new_CacheManager\<rparr>
   = (Inr (JArr []),
      \<lparr>now = 50,
       sent = [put_request ''/api/clientes/5/'' (JObj [(''comentarios'', JStr ''x'')]),
               get_request ''/api/clientes/5/''],
       delays = [], httpCache = new_CacheManager\<rparr>)"
  by (simp add: scenario_show_id loses_cliente_def put_request_def get_request_def client_defs)

text \<open>And against the server that reads back a record whose name is a number.\<close>

lemma numeric_write:
  "tryEndpoints defaultConfig example_platform numeric_nombre
     (JObj (apiData_of only_comentarios)) (endpointsToTry (id_servicio only_comentarios))
     (endpointsToTry (id_servicio only_comentarios)) (new_World 0)
   = (Inr (echoed_cliente, ''/api/clientes/5/''),
      \<lparr>now = 30, sent = [put_request ''/api/clientes/5/'' (JObj [(''comentarios'', JStr ''x'')])],
       delays = [], httpCache = new_CacheManager\<rparr>)"
  by (simp add: scenario_fields scenario_show_id endpointsToTry_def numeric_nombre_def
        echoed_cliente_def put_request_def client_defs)

lemma numeric_refetch:
  "WispHubClient_get defaultConfig example_platform numeric_nombre
     (''/api/clientes/'' @ show_id (id_servicio only_comentarios) @ ''/'') JUndefined None
     \<lparr>now = 30, sent = [put_request ''/api/clientes/5/'' (JObj [(''comentarios'', JStr ''x'')])],
      delays = [], httpCache = new_CacheManager\<rparr>
   = (Inr (JObj [(''id_servicio'', JNum (Num 5)), (''nombre'', JNum (Num 7)),
                 (''comentarios'', JStr ''viejo'')]),
      \<lparr>now = 50,
       sent = [put_request ''/api/clientes/5/'' (JObj [(''comentarios'', JStr ''x'')]),
               get_request ''/api/clientes/5/''],
       delays = [], httpCache = new_CacheManager\<rparr>)"
  by (simp add: scenario_show_id numeric_nombre_def put_request_def get_request_def client_defs)

lemma numeric_throws:
  "firstRecord (JObj [(''id_servicio'', JNum (Num 5)), (''nombre'', JNum (Num 7)),
                      (''comentarios'', JStr ''viejo'')])
     = JObj [(''id_servicio'', JNum (Num 5)), (''nombre'', JNum (Num 7)),
             (''comentarios'', JStr ''viejo'')]
   \<and> clienteToUserFriendly example_platform t
         (JObj [(''id_servicio'', JNum (Num 5)), (''nombre'', JNum (Num 7)),
                (''comentarios'', JStr ''viejo'')])
     = Inl (JsError ''TypeError'' ''apiCliente.nombre.trim is not a function'')"
  by (simp add: firstRecord_def selectRecord_def clienteToUserFriendly_def jor_def)

lemma echoed_normalizes:
  "\<exists>c. clienteToUserFriendly example_platform t echoed_cliente = Inr c
       \<and> getp c ''comentarios'' = JStr ''x''"
  by (simp add: clienteToUserFriendly_def echoed_cliente_def jor_def)

text \<open>The update of three fields against the server that answers with an envelope.\<close>

lemma three_valid: "isValidServicioId (id_servicio three_fields)"
  by (simp add: three_fields_def isValidServicioId_def)

lemma three_payload:
  "apiData_of three_fields
     = [(''telefono'', JStr ''555 0101''), (''comentarios'', JStr ''x''),
        (''notificacion_sms'', JBool True)]"
  by (simp add: apiData_of_def three_fields_def put_str_def put_flag_def trim_def
        white_space_def stripLeading.simps no_break_space_def)

lemma three_show_id: "show_id (id_servicio three_fields) = ''5''"
  by (simp add: three_fields_def show_id_def show_nat.simps)

lemma three_write:
  "tryEndpoints defaultConfig example_platform keeps_comentarios
     (JObj (apiData_of three_fields)) (endpointsToTry (id_servicio three_fields))
     (endpointsToTry (id_servicio three_fields)) (new_World 0)
   = (Inr (JObj [(''id_servicio'', JNum (Num 5)), (''nombre'', JStr ''Ana''),
                 (''telefono'', JStr ''555 0101''), (''comentarios'', JStr ''x''),
                 (''notificacion_sms'', JBool True)], ''/api/clientes/5/''),
      \<lparr>now = 30,
       sent = [put_request ''/api/clientes/5/''
                 (JObj [(''telefono'', JStr ''555 0101''), (''comentarios'', JStr ''x''),
                        (''notificacion_sms'', JBool True)])],
       delays = [], httpCache = new_CacheManager\<rparr>)"
  by (simp add: three_payload three_show_id endpointsToTry_def keeps_comentarios_def
        put_request_def client_defs)

lemma three_refetch:
  "WispHubClient_get defaultConfig example_platform keeps_comentarios
     (''/api/clientes/'' @ show_id (id_servicio three_fields) @ ''/'') JUndefined None
     \<lparr>now = 30,
      sent = [put_request ''/api/clientes/5/''
                (JObj [(''telefono'', JStr ''555 0101''), (''comentarios'', JStr ''x''),
                       (''notificacion_sms'', JBool True)])],
      delays = [], httpCache = new_CacheManager\<rparr>
   = (Inr (JObj [(''count'', JNum (Num 1)), (''next'', JNull), (''previous'', JNull),
                 (''results'', JArr [kept_cliente])]),
      \<lparr>now = 50,
       sent = [put_request ''/api/clientes/5/''
                 (JObj [(''telefono'', JStr ''555 0101''), (''comentarios'', JStr ''x''),
                        (''notificacion_sms'', JBool True)]),
               get_request ''/api/clientes/5/''],
       delays = [], httpCache = new_CacheManager\<rparr>)"
  by (simp add: three_show_id keeps_comentarios_def put_request_def get_request_def client_defs)

lemma three_record:
  "truthy kept_cliente" "string_or_falsy (getp kept_cliente ''nombre'')"
  "getp kept_cliente ''telefono'' = JStr ''555 0101''"
  "getp kept_cliente ''comentarios'' = JStr ''viejo''"
  "getp kept_cliente ''notificacion_sms'' = JBool True"
  by (simp_all add: kept_cliente_def string_or_falsy_def)

text \<open>
  C2 (as the code has it).  Whenever the write is acknowledged with a body and the read
  that follows answers with a body that holds a record (the first element of an array, the
  first element of the \<^verbatim>\<open>results\<close> of a paginated envelope, or a bare object) which is
  truthy and whose name is a string or missing, the result of \<^verbatim>\<open>actualizarCliente\<close> is
  a success whatever was sent, and its data is the normalization of the record read back:
  each contact field and the comment are the re-read ones (or the empty string), never the
  values sent.  The result is not flagged \<^verbatim>\<open>verificationFailed\<close>.
\<close>

theorem C2_verified_entity_returned:
  assumes valid: "isValidServicioId (id_servicio ps)"
    and fields: "apiData_of ps \<noteq> []"
    and wr: "tryEndpoints cfg P T (JObj (apiData_of ps)) (endpointsToTry (id_servicio ps))
               (endpointsToTry (id_servicio ps)) w = (Inr (resp, usedEndpoint), w1)"
    and ack: "truthy resp"
    and refetch: "WispHubClient_get cfg P T (''/api/clientes/'' @ show_id (id_servicio ps) @ ''/'')
                    JUndefined None w1 = (Inr verifyResponse, w2)"
    and shape: "verifyResponse = JArr (rec # others)
              \<or> verifyResponse = JObj kvs \<and> map_of kvs ''results'' = Some (JArr (rec # others))
              \<or> verifyResponse = JObj kvs \<and> rec = verifyResponse
                  \<and> (\<forall>xs. map_of kvs ''results'' \<noteq> Some (JArr xs))"
    and found: "truthy rec"
    and nombre: "string_or_falsy (getp rec ''nombre'')"
  shows "success (fst (actualizarCliente cfg P T ps w))
       \<and> error (fst (actualizarCliente cfg P T ps w)) = None
       \<and> clienteToUserFriendly P (now w2) rec = Inr (data (fst (actualizarCliente cfg P T ps w)))
       \<and> (\<forall>k \<in> set [''email'', ''telefono'', ''direccion'', ''localidad'', ''ciudad'',
                       ''comentarios''].
             getp (data (fst (actualizarCliente cfg P T ps w))) k
               = jor (getp rec k) (JStr []))
       \<and> getp (debugInfo (fst (actualizarCliente cfg P T ps w))) ''verifiedCliente'' = rec
       \<and> \<not> has_key (debugInfo (fst (actualizarCliente cfg P T ps w))) ''verificationFailed''"
proof -
  have fr: "firstRecord verifyResponse = rec"
    using shape by (rule firstRecord_shape)
  obtain c where c: "clienteToUserFriendly P (now w2) rec = Inr c"
    using clienteToUserFriendly_typed [OF found nombre] by blast
  have "actualizarCliente cfg P T ps w =
           (\<lparr>success = True, data = c, error = None, timestamp = toISOString P (now w2),
             debugInfo =
               JObj [(''method'', JStr ''PUT''), (''endpoint'', JStr usedEndpoint),
                     (''sentToAPI'', JObj (apiData_of ps)), (''apiResponse'', resp),
                     (''verifiedCliente'', firstRecord verifyResponse),
                     (''transformedCliente'', c)]\<rparr>, w2)"
    using found c by (intro actualizarCliente_verified [OF valid fields wr ack refetch])
                     (simp_all add: fr)
  then show ?thesis
    using clienteToUserFriendly_fields [OF c] by (simp add: c fr)
qed

theorem C2_verified_entity_returned_witness:
  "success (fst (actualizarCliente defaultConfig example_platform ignores_comentarios
                   only_comentarios (new_World 0)))
   \<and> getp (data (fst (actualizarCliente defaultConfig example_platform ignores_comentarios
                   only_comentarios (new_World 0)))) ''comentarios'' = JStr ''viejo''
   \<and> getp (data (fst (actualizarCliente defaultConfig example_platform ignores_comentarios
                   only_comentarios (new_World 0)))) ''nombre_completo'' = JStr ''Ana''
   \<and> success (fst (actualizarCliente defaultConfig example_platform keeps_comentarios
                   three_fields (new_World 0)))
   \<and> getp (data (fst (actualizarCliente defaultConfig example_platform keeps_comentarios
                   three_fields (new_World 0)))) ''telefono'' = JStr ''555 0101''
   \<and> getp (data (fst (actualizarCliente defaultConfig example_platform keeps_comentarios
                   three_fields (new_World 0)))) ''comentarios'' = JStr ''viejo''"
proof -
  have f: "apiData_of only_comentarios \<noteq> []"
    by (simp add: scenario_fields)
  have ack: "truthy echoed_cliente"
    by (simp add: echoed_cliente_def)
  note r = C2_verified_entity_returned [OF scenario_valid f scenario_write ack scenario_refetch
             disjI2 [OF disjI2, OF scenario_shape] scenario_record(1) scenario_record(2)]
  have s: "success (fst (actualizarCliente defaultConfig example_platform ignores_comentarios
                           only_comentarios (new_World 0)))"
    using r by blast
  have k: "getp (data (fst (actualizarCliente defaultConfig example_platform ignores_comentarios
                              only_comentarios (new_World 0)))) ''comentarios''
             = jor (getp stored_cliente ''comentarios'') (JStr [])"
    using r by simp
  have n: "getp (data (fst (actualizarCliente defaultConfig example_platform ignores_comentarios
                              only_comentarios (new_World 0)))) ''nombre_completo'' = JStr ''Ana''"
    using r scenario_nombre by metis
  have f3: "apiData_of three_fields \<noteq> []"
    by (simp add: three_payload)
  have ack3: "truthy (JObj [(''id_servicio'', JNum (Num 5)), (''nombre'', JStr ''Ana''),
                 (''telefono'', JStr ''555 0101''), (''comentarios'', JStr ''x''),
                 (''notificacion_sms'', JBool True)])"
    by simp
  have shape3: "JObj [(''count'', JNum (Num 1)), (''next'', JNull), (''previous'', JNull),
                      (''results'', JArr [kept_cliente])]
                  = JObj [(''count'', JNum (Num 1)), (''next'', JNull), (''previous'', JNull),
                          (''results'', JArr [kept_cliente])]
                \<and> map_of [(''count'', JNum (Num 1)), (''next'', JNull), (''previous'', JNull),
                           (''results'', JArr [kept_cliente])] ''results''
                  = Some (JArr (kept_cliente # []))"
    by simp
  note r3 = C2_verified_entity_returned [OF three_valid f3 three_write ack3 three_refetch
              disjI2 [OF disjI1, OF shape3] three_record(1) three_record(2)]
  have s3: "success (fst (actualizarCliente defaultConfig example_platform keeps_comentarios
                            three_fields (new_World 0)))"
    using r3 by blast
  have k3: "getp (data (fst (actualizarCliente defaultConfig example_platform keeps_comentarios
                               three_fields (new_World 0)))) ''telefono''
              = jor (getp kept_cliente ''telefono'') (JStr [])"
           "getp (data (fst (actualizarCliente defaultConfig example_platform keeps_comentarios
                               three_fields (new_World 0)))) ''comentarios''
              = jor (getp kept_cliente ''comentarios'') (JStr [])"
    using r3 by simp_all
  show ?thesis
    using s n s3 by (simp add: k k3 scenario_record three_record jor_def)
qed

text \<open>
  C2 as stated fails.  A write that is acknowledged and a read that succeeds do not make
  the data the re-read state: when the read answers 200 with an empty array, and when it
  answers with a record whose name is not a string, the result is a success whose data is
  the normalization of the write's response, here the comment that was sent, flagged
  \<^verbatim>\<open>verificationFailed\<close>.
\<close>

theorem C2_unverified_data_counterexample:
  "success (fst (actualizarCliente defaultConfig example_platform loses_cliente
                   only_comentarios (new_World 0)))
   \<and> getp (data (fst (actualizarCliente defaultConfig example_platform loses_cliente
                   only_comentarios (new_World 0)))) ''comentarios'' = JStr ''x''
   \<and> getp (debugInfo (fst (actualizarCliente defaultConfig example_platform loses_cliente
                   only_comentarios (new_World 0)))) ''verificationFailed'' = JBool True
   \<and> success (fst (actualizarCliente defaultConfig example_platform numeric_nombre
                   only_comentarios (new_World 0)))
   \<and> getp (data (fst (actualizarCliente defaultConfig example_platform numeric_nombre
                   only_comentarios (new_World 0)))) ''comentarios'' = JStr ''x''
   \<and> getp (debugInfo (fst (actualizarCliente defaultConfig example_platform numeric_nombre
                   only_comentarios (new_World 0)))) ''verificationFailed'' = JBool True"
proof -
  have f: "apiData_of only_comentarios \<noteq> []"
    by (simp add: scenario_fields)
  have ack: "truthy echoed_cliente"
    by (simp add: echoed_cliente_def)
  let ?w2 = "\<lparr>now = 50,
               sent = [put_request ''/api/clientes/5/'' (JObj [(''comentarios'', JStr ''x'')]),
                       get_request ''/api/clientes/5/''],
               delays = [], httpCache = new_CacheManager\<rparr>"
  obtain c where c: "clienteToUserFriendly example_platform (now ?w2) echoed_cliente = Inr c"
    and x: "getp c ''comentarios'' = JStr ''x''"
    using echoed_normalizes by blast
  have none: "\<not> truthy (firstRecord (JArr []))
                \<or> clienteToUserFriendly example_platform (now ?w2) (firstRecord (JArr []))
                    = Inl e" for e
    by (simp add: firstRecord_def selectRecord_def)
  have a: "actualizarCliente defaultConfig example_platform loses_cliente only_comentarios
             (new_World 0)
           = (\<lparr>success = True, data = c, error = None,
               timestamp = toISOString example_platform 50,
               debugInfo =
                 JObj [(''method'', JStr ''PUT''), (''endpoint'', JStr ''/api/clientes/5/''),
                       (''sentToAPI'', JObj (apiData_of only_comentarios)),
                       (''apiResponse'', echoed_cliente),
                       (''verifiedCliente'', JNull), (''transformedCliente'', c),
                       (''verificationFailed'', JBool True)]\<rparr>,
              \<lparr>now = 50,
               sent = [put_request ''/api/clientes/5/'' (JObj [(''comentarios'', JStr ''x'')]),
                       get_request ''/api/clientes/5/''],
               delays = [], httpCache = new_CacheManager\<rparr>)"
    using actualizarCliente_unverified [OF scenario_valid f loses_write ack loses_refetch none c]
    by simp
  have throws: "\<not> truthy (firstRecord (JObj [(''id_servicio'', JNum (Num 5)),
                                                (''nombre'', JNum (Num 7)),
                                                (''comentarios'', JStr ''viejo'')]))
                \<or> clienteToUserFriendly example_platform (now ?w2)
                     (firstRecord (JObj [(''id_servicio'', JNum (Num 5)),
                                         (''nombre'', JNum (Num 7)),
                                         (''comentarios'', JStr ''viejo'')]))
                   = Inl (JsError ''TypeError'' ''apiCliente.nombre.trim is not a function'')"
    using numeric_throws [of "now ?w2"] by simp
  have b: "actualizarCliente defaultConfig example_platform numeric_nombre only_comentarios
             (new_World 0)
           = (\<lparr>success = True, data = c, error = None,
               timestamp = toISOString example_platform 50,
               debugInfo =
                 JObj [(''method'', JStr ''PUT''), (''endpoint'', JStr ''/api/clientes/5/''),
                       (''sentToAPI'', JObj (apiData_of only_comentarios)),
                       (''apiResponse'', echoed_cliente),
                       (''verifiedCliente'', JNull), (''transformedCliente'', c),
                       (''verificationFailed'', JBool True)]\<rparr>,
              \<lparr>now = 50,
               sent = [put_request ''/api/clientes/5/'' (JObj [(''comentarios'', JStr ''x'')]),
                       get_request ''/api/clientes/5/''],
               delays = [], httpCache = new_CacheManager\<rparr>)"
    using actualizarCliente_unverified [OF scenario_valid f numeric_write ack numeric_refetch
            throws c]
    by simp
  show ?thesis
    by (simp add: a b x)
qed

text \<open>
  C1 (as the code has it).  On the same runs the result of \<^verbatim>\<open>actualizarCliente\<close>
  carries, in its debug payload, the outbound payload (\<^verbatim>\<open>sentToAPI\<close>) and the record read
  back (\<^verbatim>\<open>verifiedCliente\<close>) next to the method, the endpoint, the write's response and
  the normalized client, and nothing else: the comparison is not in the result.  It is made by the update
  tool when it renders the result: its verification lists exactly the fields of the
  outbound payload, in order, one line each, and the line says \<^verbatim>\<open>COINCIDE\<close> when the
  value sent is strictly equal to the field read back and \<^verbatim>\<open>NO COINCIDE\<close> otherwise.
  So every text field the caller gave has a line that compares its trimmed value with the
  field read back, and every flag the caller gave has a line that compares it as it is.
\<close>

theorem C1_field_by_field_report:
  fixes cfg :: ServerConfig and P :: platform and T :: transport
    and ps :: ActualizarClienteInput and w :: World
  assumes valid: "isValidServicioId (id_servicio ps)"
    and fields: "apiData_of ps \<noteq> []"
    and wr: "tryEndpoints cfg P T (JObj (apiData_of ps)) (endpointsToTry (id_servicio ps))
               (endpointsToTry (id_servicio ps)) w = (Inr (resp, usedEndpoint), w1)"
    and ack: "truthy resp"
    and refetch: "WispHubClient_get cfg P T (''/api/clientes/'' @ show_id (id_servicio ps) @ ''/'')
                    JUndefined None w1 = (Inr verifyResponse, w2)"
    and shape: "verifyResponse = JArr (rec # others)
              \<or> verifyResponse = JObj kvs \<and> map_of kvs ''results'' = Some (JArr (rec # others))
              \<or> verifyResponse = JObj kvs \<and> rec = verifyResponse
                  \<and> (\<forall>xs. map_of kvs ''results'' \<noteq> Some (JArr xs))"
    and found: "truthy rec"
    and nombre: "string_or_falsy (getp rec ''nombre'')"
  defines "dbg \<equiv> debugInfo (fst (actualizarCliente cfg P T ps w))"
  shows "map fst (entries dbg)
           = [''method'', ''endpoint'', ''sentToAPI'', ''apiResponse'', ''verifiedCliente'',
              ''transformedCliente'']
       \<and> getp dbg ''sentToAPI'' = JObj (apiData_of ps)
       \<and> getp dbg ''verifiedCliente'' = rec
       \<and> verifiedFields P dbg
           = map (\<lambda>(field, sentValue).
                    field @ '': '' @ toString P sentValue @ '' '' @ right_arrow @ '' ''
                    @ toString P (getp rec field) @ '' '' @ right_arrow @ '' ''
                    @ (if strict_eq sentValue (getp rec field) then COINCIDE else NO_COINCIDE))
                 (apiData_of ps)
       \<and> (\<forall>k s. (k, Some s) \<in> set [(''email'', email ps), (''telefono'', telefono ps),
                                     (''direccion'', direccion ps), (''localidad'', localidad ps),
                                     (''ciudad'', ciudad ps), (''comentarios'', comentarios ps)]
             \<longrightarrow> k @ '': '' @ trim s @ '' '' @ right_arrow @ '' ''
                 @ toString P (getp rec k) @ '' '' @ right_arrow @ '' ''
                 @ (if getp rec k = JStr (trim s) then COINCIDE else NO_COINCIDE)
                 \<in> set (verifiedFields P dbg))
       \<and> (\<forall>k b. (k, Some b) \<in> set [(''notificacion_sms'', notificacion_sms ps),
                                     (''notificaciones_push'', notificaciones_push ps)]
             \<longrightarrow> k @ '': '' @ String_of P (JBool b) @ '' '' @ right_arrow @ '' ''
                 @ toString P (getp rec k) @ '' '' @ right_arrow @ '' ''
                 @ (if getp rec k = JBool b then COINCIDE else NO_COINCIDE)
                 \<in> set (verifiedFields P dbg))"
proof -
  let ?line = "\<lambda>(field, sentValue).
                 field @ '': '' @ toString P sentValue @ '' '' @ right_arrow @ '' ''
                 @ toString P (getp rec field) @ '' '' @ right_arrow @ '' ''
                 @ (if strict_eq sentValue (getp rec field) then COINCIDE else NO_COINCIDE)"
  have fr: "firstRecord verifyResponse = rec"
    using shape by (rule firstRecord_shape)
  obtain c where c: "clienteToUserFriendly P (now w2) rec = Inr c"
    using clienteToUserFriendly_typed [OF found nombre] by blast
  have "actualizarCliente cfg P T ps w =
           (\<lparr>success = True, data = c, error = None, timestamp = toISOString P (now w2),
             debugInfo =
               JObj [(''method'', JStr ''PUT''), (''endpoint'', JStr usedEndpoint),
                     (''sentToAPI'', JObj (apiData_of ps)), (''apiResponse'', resp),
                     (''verifiedCliente'', firstRecord verifyResponse),
                     (''transformedCliente'', c)]\<rparr>, w2)"
    using found c by (intro actualizarCliente_verified [OF valid fields wr ack refetch])
                     (simp_all add: fr)
  then have dbg: "dbg = JObj [(''method'', JStr ''PUT''), (''endpoint'', JStr usedEndpoint),
                              (''sentToAPI'', JObj (apiData_of ps)), (''apiResponse'', resp),
                              (''verifiedCliente'', rec), (''transformedCliente'', c)]"
    by (simp add: dbg_def fr)
  have 1: "map fst (entries dbg)
             = [''method'', ''endpoint'', ''sentToAPI'', ''apiResponse'', ''verifiedCliente'',
                ''transformedCliente'']"
    by (simp add: dbg)
  have 2: "getp dbg ''sentToAPI'' = JObj (apiData_of ps)"
    by (simp add: dbg)
  have 3: "getp dbg ''verifiedCliente'' = rec"
    by (simp add: dbg)
  have 4: "verifiedFields P dbg = map ?line (apiData_of ps)"
    using found by (simp add: dbg verifiedFields_def Let_def)
  have 5: "k @ '': '' @ trim s @ '' '' @ right_arrow @ '' ''
           @ toString P (getp rec k) @ '' '' @ right_arrow @ '' ''
           @ (if getp rec k = JStr (trim s) then COINCIDE else NO_COINCIDE)
           \<in> set (verifiedFields P dbg)"
    if "(k, Some s) \<in> set [(''email'', email ps), (''telefono'', telefono ps),
                             (''direccion'', direccion ps), (''localidad'', localidad ps),
                             (''ciudad'', ciudad ps), (''comentarios'', comentarios ps)]" for k s
  proof -
    have "?line (k, JStr (trim s)) \<in> ?line ` set (apiData_of ps)"
      using apiData_of_sent_string [OF that] by (rule imageI)
    moreover have "(JStr (trim s) = getp rec k) = (getp rec k = JStr (trim s))"
      by auto
    ultimately show ?thesis
      by (simp add: 4)
  qed
  have 6: "k @ '': '' @ String_of P (JBool b) @ '' '' @ right_arrow @ '' ''
           @ toString P (getp rec k) @ '' '' @ right_arrow @ '' ''
           @ (if getp rec k = JBool b then COINCIDE else NO_COINCIDE)
           \<in> set (verifiedFields P dbg)"
    if "(k, Some b) \<in> set [(''notificacion_sms'', notificacion_sms ps),
                             (''notificaciones_push'', notificaciones_push ps)]" for k b
  proof -
    have "?line (k, JBool b) \<in> ?line ` set (apiData_of ps)"
      using apiData_of_sent_flag [OF that] by (rule imageI)
    moreover have "(JBool b = getp rec k) = (getp rec k = JBool b)"
      by auto
    ultimately show ?thesis
      by (simp add: 4)
  qed
  show ?thesis
    using 1 2 3 4 5 6 by blast
qed

theorem C1_field_by_field_report_witness:
  "verifiedFields example_platform
     (debugInfo (fst (actualizarCliente defaultConfig example_platform ignores_comentarios
                        only_comentarios (new_World 0))))
   = [''comentarios: x '' @ right_arrow @ '' viejo '' @ right_arrow @ '' '' @ cross_mark
      @ '' NO COINCIDE'']
   \<and> verifiedFields example_platform
     (debugInfo (fst (actualizarCliente defaultConfig example_platform keeps_comentarios
                        three_fields (new_World 0))))
   = [''telefono: 555 0101 '' @ right_arrow @ '' 555 0101 '' @ right_arrow @ '' '' @ check_mark
      @ '' COINCIDE'',
      ''comentarios: x '' @ right_arrow @ '' viejo '' @ right_arrow @ '' '' @ cross_mark
      @ '' NO COINCIDE'',
      ''notificacion_sms: true '' @ right_arrow @ '' true '' @ right_arrow @ '' '' @ check_mark
      @ '' COINCIDE'']"
proof -
  have f: "apiData_of only_comentarios \<noteq> []"
    by (simp add: scenario_fields)
  have ack: "truthy echoed_cliente"
    by (simp add: echoed_cliente_def)
  note r = C1_field_by_field_report [OF scenario_valid f scenario_write ack scenario_refetch
             disjI2 [OF disjI2, OF scenario_shape] scenario_record(1) scenario_record(2)]
  have a: "verifiedFields example_platform
             (debugInfo (fst (actualizarCliente defaultConfig example_platform ignores_comentarios
                                only_comentarios (new_World 0))))
           = [''comentarios: x '' @ right_arrow @ '' viejo '' @ right_arrow @ '' '' @ cross_mark
              @ '' NO COINCIDE'']"
    using r by (simp add: scenario_fields scenario_record NO_COINCIDE_def)
  have f3: "apiData_of three_fields \<noteq> []"
    by (simp add: three_payload)
  have ack3: "truthy (JObj [(''id_servicio'', JNum (Num 5)), (''nombre'', JStr ''Ana''),
                 (''telefono'', JStr ''555 0101''), (''comentarios'', JStr ''x''),
                 (''notificacion_sms'', JBool True)])"
    by simp
  have shape3: "JObj [(''count'', JNum (Num 1)), (''next'', JNull), (''previous'', JNull),
                      (''results'', JArr [kept_cliente])]
                  = JObj [(''count'', JNum (Num 1)), (''next'', JNull), (''previous'', JNull),
                          (''results'', JArr [kept_cliente])]
                \<and> map_of [(''count'', JNum (Num 1)), (''next'', JNull), (''previous'', JNull),
                           (''results'', JArr [kept_cliente])] ''results''
                  = Some (JArr (kept_cliente # []))"
    by simp
  note r3 = C1_field_by_field_report [OF three_valid f3 three_write ack3 three_refetch
              disjI2 [OF disjI1, OF shape3] three_record(1) three_record(2)]
  have b: "verifiedFields example_platform
             (debugInfo (fst (actualizarCliente defaultConfig example_platform keeps_comentarios
                                three_fields (new_World 0))))
           = [''telefono: 555 0101 '' @ right_arrow @ '' 555 0101 '' @ right_arrow @ '' ''
              @ check_mark @ '' COINCIDE'',
              ''comentarios: x '' @ right_arrow @ '' viejo '' @ right_arrow @ '' '' @ cross_mark
              @ '' NO COINCIDE'',
              ''notificacion_sms: true '' @ right_arrow @ '' true '' @ right_arrow @ '' ''
              @ check_mark @ '' COINCIDE'']"
    using r3 by (simp add: three_payload three_record NO_COINCIDE_def COINCIDE_def
                   example_platform_def)
  show ?thesis
    using a b by simp
qed

text \<open>
  C1 as stated fails.  In the scenario of the specification the result of the operation
  holds the value sent and the record read back side by side and records no match or
  mismatch for \<^verbatim>\<open>comentarios\<close>: the six entries of its debug payload are listed below, and
  its data is the normalized client.  And when the read that follows the write succeeds
  with an empty array, there is no record to compare with: the result is a success that
  holds \<^verbatim>\<open>null\<close> for the record, and the update tool lists no field at all.
\<close>

theorem C1_result_without_report_counterexample:
  "map fst (entries (debugInfo (fst (actualizarCliente defaultConfig example_platform
                                       ignores_comentarios only_comentarios (new_World 0)))))
     = [''method'', ''endpoint'', ''sentToAPI'', ''apiResponse'', ''verifiedCliente'',
        ''transformedCliente'']
   \<and> getp (debugInfo (fst (actualizarCliente defaultConfig example_platform
                             ignores_comentarios only_comentarios (new_World 0)))) ''method''
     = JStr ''PUT''
   \<and> getp (debugInfo (fst (actualizarCliente defaultConfig example_platform
                             ignores_comentarios only_comentarios (new_World 0)))) ''endpoint''
     = JStr ''/api/clientes/5/''
   \<and> getp (debugInfo (fst (actualizarCliente defaultConfig example_platform
                             ignores_comentarios only_comentarios (new_World 0)))) ''sentToAPI''
     = JObj [(''comentarios'', JStr ''x'')]
   \<and> getp (debugInfo (fst (actualizarCliente defaultConfig example_platform
                             ignores_comentarios only_comentarios (new_World 0)))) ''apiResponse''
     = JObj [(''id_servicio'', JNum (Num 5)), (''nombre'', JStr ''Ana''),
             (''comentarios'', JStr ''x'')]
   \<and> getp (debugInfo (fst (actualizarCliente defaultConfig example_platform
                             ignores_comentarios only_comentarios (new_World 0))))
        ''verifiedCliente''
     = JObj [(''id_servicio'', JNum (Num 5)), (''nombre'', JStr ''Ana ''),
             (''comentarios'', JStr ''viejo'')]
   \<and> getp (debugInfo (fst (actualizarCliente defaultConfig example_platform
                             ignores_comentarios only_comentarios (new_World 0))))
        ''transformedCliente''
     = data (fst (actualizarCliente defaultConfig example_platform
                    ignores_comentarios only_comentarios (new_World 0)))
   \<and> success (fst (actualizarCliente defaultConfig example_platform loses_cliente
                     only_comentarios (new_World 0)))
   \<and> getp (debugInfo (fst (actualizarCliente defaultConfig example_platform loses_cliente
                             only_comentarios (new_World 0)))) ''verifiedCliente'' = JNull
   \<and> verifiedFields example_platform
        (debugInfo (fst (actualizarCliente defaultConfig example_platform loses_cliente
                           only_comentarios (new_World 0)))) = []"
proof -
  let ?w2 = "\<lparr>now = 50,
               sent = [put_request ''/api/clientes/5/'' (JObj [(''comentarios'', JStr ''x'')]),
                       get_request ''/api/clientes/5/''],
               delays = [], httpCache = new_CacheManager\<rparr>"
  have f: "apiData_of only_comentarios \<noteq> []"
    by (simp add: scenario_fields)
  have ack: "truthy echoed_cliente"
    by (simp add: echoed_cliente_def)
  have found: "truthy (firstRecord stored_cliente)"
    by (simp add: firstRecord_def selectRecord_def stored_cliente_def)
  obtain v where v: "clienteToUserFriendly example_platform (now ?w2) (firstRecord stored_cliente)
                       = Inr v"
    using clienteToUserFriendly_typed [OF scenario_record(1) scenario_record(2)]
    by (auto simp: firstRecord_def selectRecord_def stored_cliente_def)
  have a: "fst (actualizarCliente defaultConfig example_platform ignores_comentarios
                  only_comentarios (new_World 0))
           = \<lparr>success = True, data = v, error = None,
              timestamp = toISOString example_platform (now ?w2),
              debugInfo =
                JObj [(''method'', JStr ''PUT''), (''endpoint'', JStr ''/api/clientes/5/''),
                      (''sentToAPI'', JObj (apiData_of only_comentarios)),
                      (''apiResponse'', echoed_cliente),
                      (''verifiedCliente'', firstRecord stored_cliente),
                      (''transformedCliente'', v)]\<rparr>"
    using actualizarCliente_verified [OF scenario_valid f scenario_write ack scenario_refetch
            found v]
    by simp
  obtain c where c: "clienteToUserFriendly example_platform (now ?w2) echoed_cliente = Inr c"
    using echoed_normalizes by blast
  have none: "\<not> truthy (firstRecord (JArr []))
                \<or> clienteToUserFriendly example_platform (now ?w2) (firstRecord (JArr []))
                    = Inl e" for e
    by (simp add: firstRecord_def selectRecord_def)
  have b: "fst (actualizarCliente defaultConfig example_platform loses_cliente only_comentarios
                  (new_World 0))
           = \<lparr>success = True, data = c, error = None,
              timestamp = toISOString example_platform (now ?w2),
              debugInfo =
                JObj [(''method'', JStr ''PUT''), (''endpoint'', JStr ''/api/clientes/5/''),
                      (''sentToAPI'', JObj (apiData_of only_comentarios)),
                      (''apiResponse'', echoed_cliente),
                      (''verifiedCliente'', JNull), (''transformedCliente'', c),
                      (''verificationFailed'', JBool True)]\<rparr>"
    using actualizarCliente_unverified [OF scenario_valid f loses_write ack loses_refetch none c]
    by simp
  show ?thesis
    by (simp add: a b scenario_fields verifiedFields_def firstRecord_def selectRecord_def
          stored_cliente_def echoed_cliente_def)
qed

section \<open>Properties of the ticket service\<close>

lemma map_of_fix_prioridad: "k \<noteq> ''prioridad'' \<Longrightarrow> map_of (fix_prioridad c) k = map_of c k"
  by (simp add: fix_prioridad_def update_conv')

lemma map_of_fix_estado: "k \<noteq> ''estado'' \<Longrightarrow> map_of (fix_estado c) k = map_of c k"
  by (simp add: fix_estado_def update_conv' split: json.splits)

lemma map_of_fix_asuntos_default:
  "fix_asuntos_default P c = Inr c' \<Longrightarrow> k \<noteq> ''asuntos_default'' \<Longrightarrow> map_of c' k = map_of c k"
  by (auto simp: fix_asuntos_default_def update_conv' split: if_splits json.splits)

lemma map_of_fix_origen_reporte:
  "k \<noteq> ''origen_reporte'' \<Longrightarrow> map_of (fix_origen_reporte c) k = map_of c k"
  by (simp add: fix_origen_reporte_def update_conv')

lemma map_of_clean_tecnico:
  "clean_tecnico c = Inr c' \<Longrightarrow> k \<noteq> ''tecnico'' \<Longrightarrow> k \<noteq> ''email_tecnico''
     \<Longrightarrow> map_of c' k = map_of c k"
  by (auto simp: clean_tecnico_def delete_conv' split: if_splits json.splits)

lemma map_of_append_notas:
  "k \<noteq> ''descripcion'' \<Longrightarrow> map_of (append_notas P hoy u c) k = map_of c k"
  by (simp add: append_notas_def update_conv' Let_def split: option.splits)

lemma append_notas_descripcion:
  "upd_notas u = Some n \<Longrightarrow> n \<noteq> [] \<Longrightarrow>
   map_of (append_notas P hoy u c) ''descripcion''
     = Some (JStr (toString P (jor (getp (JObj c) ''descripcion'') (JStr []))
                   @ nota_marker P hoy @ trim n))"
  by (simp add: append_notas_def given_def update_conv' Let_def)

lemma map_of_handle_dates:
  "k \<noteq> ''fecha_inicio'' \<Longrightarrow> k \<noteq> ''fecha_fin'' \<Longrightarrow> k \<noteq> ''finalizado_por''
     \<Longrightarrow> map_of (handle_dates P hoy u c) k = map_of c k"
  by (simp add: handle_dates_def update_conv' Let_def split: option.splits)

lemma handle_dates_fecha_fin:
  "upd_estado u = Some ''resuelto'' \<or> upd_estado u = Some ''cerrado'' \<Longrightarrow>
   map_of (handle_dates P hoy u c) ''fecha_fin'' = Some (JStr (wisphubDateFormat P hoy))"
  by (auto simp: handle_dates_def given_def update_conv' Let_def)

lemma map_of_fold_delete:
  "map_of (fold AList.delete ks c) k = (if k \<in> set ks then None else map_of c k)"
  by (induction ks arbitrary: c) (auto simp: delete_conv')

lemma map_of_strip_fields:
  "map_of (strip_fields c) k = (if k \<in> set stripped_fields then None else map_of c k)"
  by (simp add: strip_fields_def map_of_fold_delete)

lemma map_of_spread_over_notin:
  "k \<notin> fst ` set b \<Longrightarrow> map_of (spread_over a b) k = map_of a k"
  unfolding spread_over_def
  by (induction b arbitrary: a) (auto simp: update_conv')

lemma map_of_spread_over_in:
  "distinct (map fst b) \<Longrightarrow> map_of b k = Some v \<Longrightarrow> map_of (spread_over a b) k = Some v"
  unfolding spread_over_def
proof (induction b arbitrary: a)
  case Nil
  then show ?case by simp
next
  case (Cons x b)
  obtain k' v' where x: "x = (k', v')" by (cases x)
  show ?case
  proof (cases "k = k'")
    case True
    with Cons.prems x have "v' = v" "k \<notin> fst ` set b" by auto
    then show ?thesis
      using map_of_spread_over_notin [of k b "AList.update k v a"] True x
      by (simp add: spread_over_def update_conv')
  next
    case False
    with Cons x show ?thesis by simp
  qed
qed

lemma keys_ticket_apiData:
  "fst ` set (ticket_apiData u)
     \<subseteq> {''estado'', ''razon_falla'', ''prioridad'', ''tecnico'', ''email_tecnico''}"
  by (auto simp: ticket_apiData_def Let_def dom_update split: if_splits option.splits)

lemma distinct_ticket_apiData: "distinct (map fst (ticket_apiData u))"
  by (simp add: ticket_apiData_def Let_def distinct_update split: option.splits)

lemma given_closing:
  "upd_estado u = Some ''resuelto'' \<or> upd_estado u = Some ''cerrado'' \<Longrightarrow>
   given (upd_estado u) = Some ''resuelto'' \<or> given (upd_estado u) = Some ''cerrado''"
  by (auto simp: given_def)

lemma ticket_apiData_razon_falla:
  assumes "upd_estado u = Some ''resuelto'' \<or> upd_estado u = Some ''cerrado''"
  shows "map_of (ticket_apiData u) ''razon_falla'' = Some (JStr ''Otro'')"
proof -
  obtain e where e: "given (upd_estado u) = Some e" "e = ''resuelto'' \<or> e = ''cerrado''"
    using given_closing [OF assms] by auto
  have r: "or_str (map_of razonMap e) ''Otro'' = ''Otro''"
    using e(2) by (auto simp: razonMap_def or_str_def)
  show ?thesis
    by (simp add: ticket_apiData_def Let_def e(1) r update_conv' split: option.split)
qed

lemma fix_asuntos_default_typed:
  "string_or_falsy (getp (JObj c) ''asunto'') \<Longrightarrow> \<exists>c'. fix_asuntos_default P c = Inr c'"
  by (auto simp: fix_asuntos_default_def string_or_falsy_def split: json.splits option.splits)

lemma clean_tecnico_typed:
  "string_or_falsy (getp (JObj c) ''tecnico'') \<Longrightarrow> \<exists>c'. clean_tecnico c = Inr c'"
  by (auto simp: clean_tecnico_def string_or_falsy_def split: json.splits option.splits)

text \<open>
  The merged payload of a closing update exists whenever the subject and the technician of
  the current record are strings (or missing), and has the closure fields.
\<close>

lemma putData_of_properties:
  assumes estado: "upd_estado u = Some ''resuelto'' \<or> upd_estado u = Some ''cerrado''"
    and asunto: "string_or_falsy (getp (JObj kvs) ''asunto'')"
    and tecnico: "string_or_falsy (getp (JObj kvs) ''tecnico'')"
  shows "\<exists>p. putData_of P hoy tid u (JObj kvs) = Inr (JObj p)
           \<and> map_of p ''fecha_fin'' = Some (JStr (wisphubDateFormat P hoy))
           \<and> map_of p ''razon_falla'' = Some (JStr ''Otro'')
           \<and> (\<forall>k \<in> set stripped_fields. map_of p k = None)
           \<and> (\<forall>n. upd_notas u = Some n \<and> n \<noteq> [] \<longrightarrow>
                map_of p ''descripcion''
                  = Some (JStr (toString P (jor (getp (JObj kvs) ''descripcion'') (JStr []))
                                @ nota_marker P hoy @ trim n)))
           \<and> map_of p ''notas'' = map_of kvs ''notas''"
proof -
  let ?c2 = "fix_estado (fix_prioridad kvs)"
  have a2: "map_of ?c2 ''asunto'' = map_of kvs ''asunto''"
    by (simp add: map_of_fix_estado map_of_fix_prioridad)
  then have "string_or_falsy (getp (JObj ?c2) ''asunto'')"
    using asunto by simp
  then obtain c3 where c3: "fix_asuntos_default P ?c2 = Inr c3"
    using fix_asuntos_default_typed by blast
  have f3: "map_of c3 k = map_of kvs k"
    if "k \<noteq> ''prioridad''" "k \<noteq> ''estado''" "k \<noteq> ''asuntos_default''" for k
    using that map_of_fix_asuntos_default [OF c3]
    by (simp add: map_of_fix_estado map_of_fix_prioridad)
  let ?c4 = "fix_origen_reporte c3"
  have "map_of ?c4 ''tecnico'' = map_of kvs ''tecnico''"
    by (simp add: map_of_fix_origen_reporte f3)
  then have "string_or_falsy (getp (JObj ?c4) ''tecnico'')"
    using tecnico by simp
  then obtain c5 where c5: "clean_tecnico ?c4 = Inr c5"
    using clean_tecnico_typed by blast
  have f5: "map_of c5 k = map_of kvs k"
    if "k \<noteq> ''prioridad''" "k \<noteq> ''estado''" "k \<noteq> ''asuntos_default''"
       "k \<noteq> ''origen_reporte''" "k \<noteq> ''tecnico''" "k \<noteq> ''email_tecnico''" for k
    using that map_of_clean_tecnico [OF c5] by (simp add: map_of_fix_origen_reporte f3)
  define cleaned where "cleaned = strip_fields (handle_dates P hoy u (append_notas P hoy u c5))"
  define p where
    "p = AList.update ''id_ticket'' (JNum (Num tid)) (spread_over cleaned (ticket_apiData u))"
  have built: "putData_of P hoy tid u (JObj kvs) = Inr (JObj p)"
    by (simp add: putData_of_def c3 c5 p_def cleaned_def)
  have keys: "k \<notin> fst ` set (ticket_apiData u)"
    if "k \<noteq> ''estado''" "k \<noteq> ''razon_falla''" "k \<noteq> ''prioridad''" "k \<noteq> ''tecnico''"
       "k \<noteq> ''email_tecnico''" for k
    using that keys_ticket_apiData [of u] by auto
  have fin: "map_of p ''fecha_fin'' = Some (JStr (wisphubDateFormat P hoy))"
    by (simp add: p_def update_conv' map_of_spread_over_notin keys cleaned_def
          map_of_strip_fields stripped_fields_def handle_dates_fecha_fin [OF estado])
  have razon: "map_of p ''razon_falla'' = Some (JStr ''Otro'')"
    using map_of_spread_over_in [OF distinct_ticket_apiData ticket_apiData_razon_falla [OF estado]]
    by (simp add: p_def update_conv')
  have strip: "\<forall>k \<in> set stripped_fields. map_of p k = None"
    by (simp add: p_def update_conv' map_of_spread_over_notin keys cleaned_def
          map_of_strip_fields stripped_fields_def)
  have desc5: "getp (JObj c5) ''descripcion'' = getp (JObj kvs) ''descripcion''"
    by (simp add: f5)
  have desc: "map_of p ''descripcion''
                = Some (JStr (toString P (jor (getp (JObj kvs) ''descripcion'') (JStr []))
                              @ nota_marker P hoy @ trim n))"
    if "upd_notas u = Some n" "n \<noteq> []" for n
    using append_notas_descripcion [OF that, of P hoy c5]
    by (simp only: desc5)
       (simp add: p_def update_conv' map_of_spread_over_notin keys cleaned_def
          map_of_strip_fields stripped_fields_def map_of_handle_dates)
  have notas: "map_of p ''notas'' = map_of kvs ''notas''"
    by (simp add: p_def update_conv' map_of_spread_over_notin keys cleaned_def
          map_of_strip_fields stripped_fields_def map_of_handle_dates map_of_append_notas f5)
  show ?thesis
    using built fin razon strip desc notas by blast
qed

text \<open>
  C9.  A ticket update that sets \<^verbatim>\<open>estado\<close> to \<^verbatim>\<open>resuelto\<close> or \<^verbatim>\<open>cerrado\<close>, on a current
  ticket whose subject and technician are strings or missing, sends a \<^verbatim>\<open>PUT\<close> whose body
  has a non-empty \<^verbatim>\<open>fecha_fin\<close> (the local date and time of the update) and the reason code
  \<^verbatim>\<open>razon_falla = "Otro"\<close>, has none of the five stripped fields, carries the caller's
  notes at the end of \<^verbatim>\<open>descripcion\<close> after the time-stamped marker, and has a \<^verbatim>\<open>notas\<close>
  field only if the current ticket had one, with that ticket's value.
\<close>

theorem C9_ticket_put_payload:
  assumes estado: "upd_estado u = Some ''resuelto'' \<or> upd_estado u = Some ''cerrado''"
    and cur: "WispHubClient_get cfg P T (ticket_url P tid) JUndefined None w
                = (Inr currentTicket, w1)"
    and rec: "firstRecord currentTicket = JObj kvs"
    and asunto: "string_or_falsy (getp (JObj kvs) ''asunto'')"
    and tecnico: "string_or_falsy (getp (JObj kvs) ''tecnico'')"
  shows "\<exists>p rest.
           sent (snd (actualizarTicket_put cfg P T tid u w))
             = sent w1 @ \<lparr>req_method = ''put'', url = ticket_url P tid, params = JUndefined,
                          body = JObj p, retry = False, retryCount = None\<rparr> # rest
         \<and> getp (JObj p) ''fecha_fin''
             = JStr (toLocaleDateString_MX P (now w1) @ '' '' @ toLocaleTimeString_MX P (now w1))
         \<and> getp (JObj p) ''fecha_fin'' \<noteq> JStr []
         \<and> getp (JObj p) ''razon_falla'' = JStr ''Otro''
         \<and> (\<forall>k \<in> set [''tickets_mensual'', ''tickets_anual'', ''vencimiento'',
                         ''archivo_ticket'', ''respuestas'']. \<not> has_key (JObj p) k)
         \<and> (\<forall>n. upd_notas u = Some n \<and> n \<noteq> [] \<longrightarrow>
               getp (JObj p) ''descripcion''
                 = JStr (toString P (jor (getp (JObj kvs) ''descripcion'') (JStr []))
                         @ nota_marker P (now w1) @ trim n))
         \<and> has_key (JObj p) ''notas'' = has_key (JObj kvs) ''notas''
         \<and> getp (JObj p) ''notas'' = getp (JObj kvs) ''notas''"
proof -
  obtain p where built: "putData_of P (now w1) tid u (JObj kvs) = Inr (JObj p)"
    and fin: "map_of p ''fecha_fin'' = Some (JStr (wisphubDateFormat P (now w1)))"
    and razon: "map_of p ''razon_falla'' = Some (JStr ''Otro'')"
    and strip: "\<forall>k \<in> set stripped_fields. map_of p k = None"
    and desc: "\<forall>n. upd_notas u = Some n \<and> n \<noteq> [] \<longrightarrow>
                map_of p ''descripcion''
                  = Some (JStr (toString P (jor (getp (JObj kvs) ''descripcion'') (JStr []))
                                @ nota_marker P (now w1) @ trim n))"
    and notas: "map_of p ''notas'' = map_of kvs ''notas''"
    using putData_of_properties [OF estado asunto tecnico, of P "now w1" tid] by blast
  let ?req = "\<lparr>req_method = ''put'', url = ticket_url P tid, params = JUndefined,
               body = JObj p, retry = False, retryCount = None\<rparr>"
  have run: "actualizarTicket_put cfg P T tid u w = http cfg P T ?req w1"
    by (simp add: actualizarTicket_put_def cur rec built WispHubClient_put_def)
  obtain rest where rest: "sent (snd (http cfg P T ?req w1)) = sent w1 @ ?req # rest"
    using http_sent_prefix [of cfg P T ?req w1] by blast
  have 1: "sent (snd (actualizarTicket_put cfg P T tid u w)) = sent w1 @ ?req # rest"
    by (simp add: run rest)
  have 2: "getp (JObj p) ''fecha_fin''
             = JStr (toLocaleDateString_MX P (now w1) @ '' '' @ toLocaleTimeString_MX P (now w1))"
    by (simp add: fin wisphubDateFormat_def)
  have 3: "getp (JObj p) ''fecha_fin'' \<noteq> JStr []"
    by (simp add: fin wisphubDateFormat_def)
  have 4: "getp (JObj p) ''razon_falla'' = JStr ''Otro''"
    by (simp add: razon)
  have 5: "\<forall>k \<in> set [''tickets_mensual'', ''tickets_anual'', ''vencimiento'',
                       ''archivo_ticket'', ''respuestas'']. \<not> has_key (JObj p) k"
    using strip by (simp add: stripped_fields_def)
  have 6: "\<forall>n. upd_notas u = Some n \<and> n \<noteq> [] \<longrightarrow>
               getp (JObj p) ''descripcion''
                 = JStr (toString P (jor (getp (JObj kvs) ''descripcion'') (JStr []))
                         @ nota_marker P (now w1) @ trim n)"
    using desc by auto
  have 7: "has_key (JObj p) ''notas'' = has_key (JObj kvs) ''notas''"
    by (simp add: notas)
  have 8: "getp (JObj p) ''notas'' = getp (JObj kvs) ''notas''"
    by (simp add: notas)
  show ?thesis
    using 1 2 3 4 5 6 7 8 by blast
qed

text \<open>The run of the ticket server, step by step.\<close>

lemma lower_example: "toLowerCase example_platform ''Internet lento'' = ''internet lento''"
  by (simp add: example_platform_def ascii_lower_def)

lemma asunto_example: "getDefaultAsunto example_platform ''Internet lento'' = ''Internet Lento''"
  by (simp add: getDefaultAsunto_def lower_example asuntoMap_def)

lemma api_example:
  "ticket_apiData resolve_with_note = [(''estado'', JNum (Num 3)), (''razon_falla'', JStr ''Otro'')]"
  by (simp add: ticket_apiData_def resolve_with_note_def given_def estadoTicketToNumber_def
        ESTADO_TICKET_REVERSE_MAP_def or_int_def or_str_def razonMap_def num_of_int_def)

lemma trim_example: "padded_note \<noteq> [] \<and> trim padded_note = ''Se cambio el router''"
  by (simp add: padded_note_def trim_def white_space_def stripLeading.simps no_break_space_def
        line_separator_def)

lemma c3_example:
  "fix_asuntos_default example_platform (fix_estado (fix_prioridad ticket_42))
   = Inr [(''id'', JNum (Num 42)), (''servicio'', JNum (Num 5)),
      (''asunto'', JStr ''Internet lento''), (''descripcion'', JStr ''No carga''),
      (''estado'', JNum (Num 1)), (''prioridad'', JNum (Num 3)),
      (''tecnico'', JStr []), (''respuestas'', JArr []), (''vencimiento'', JNull),
      (''asuntos_default'', JStr ''Internet Lento'')]"
  by (simp add: fix_asuntos_default_def fix_estado_def fix_prioridad_def ticket_42_def
        asunto_example estadoMap_def or_int_def num_of_int_def)


lemma c5_example:
  "clean_tecnico (fix_origen_reporte
     [(''id'', JNum (Num 42)), (''servicio'', JNum (Num 5)),
      (''asunto'', JStr ''Internet lento''), (''descripcion'', JStr ''No carga''),
      (''estado'', JNum (Num 1)), (''prioridad'', JNum (Num 3)),
      (''tecnico'', JStr []), (''respuestas'', JArr []), (''vencimiento'', JNull),
      (''asuntos_default'', JStr ''Internet Lento'')])
   = Inr [(''id'', JNum (Num 42)), (''servicio'', JNum (Num 5)),
      (''asunto'', JStr ''Internet lento''), (''descripcion'', JStr ''No carga''),
      (''estado'', JNum (Num 1)), (''prioridad'', JNum (Num 3)),
      (''respuestas'', JArr []), (''vencimiento'', JNull),
      (''asuntos_default'', JStr ''Internet Lento''),
      (''origen_reporte'', JStr ''portal_cliente'')]"
  by (simp add: clean_tecnico_def fix_origen_reporte_def)

lemma cleaned_example:
  "strip_fields (handle_dates example_platform 20 resolve_with_note
     (append_notas example_platform 20 resolve_with_note
        [(''id'', JNum (Num 42)), (''servicio'', JNum (Num 5)),
         (''asunto'', JStr ''Internet lento''), (''descripcion'', JStr ''No carga''),
         (''estado'', JNum (Num 1)), (''prioridad'', JNum (Num 3)),
         (''respuestas'', JArr []), (''vencimiento'', JNull),
         (''asuntos_default'', JStr ''Internet Lento''),
         (''origen_reporte'', JStr ''portal_cliente'')]))
   = [(''id'', JNum (Num 42)), (''servicio'', JNum (Num 5)),
      (''asunto'', JStr ''Internet lento''),
      (''descripcion'',
         JStr (''No carga'' @ [CHR 0x0A, CHR 0x0A] @ ''--- ACTUALIZACI'' @ O_acute
               @ ''N 10/02/2024, 10:00 ---'' @ [CHR 0x0A] @ ''Se cambio el router'')),
      (''estado'', JNum (Num 1)), (''prioridad'', JNum (Num 3)),
      (''asuntos_default'', JStr ''Internet Lento''),
      (''origen_reporte'', JStr ''portal_cliente''),
      (''fecha_fin'', JStr ''10/02/2024 10:00:00''),
      (''finalizado_por'', JStr ''admin@almacreativa''),
      (''fecha_inicio'', JStr ''10/02/2024 10:00:00'')]"
  by (simp add: strip_fields_def stripped_fields_def handle_dates_def append_notas_def
        resolve_with_note_def given_def trim_example nota_marker_def wisphubDateFormat_def
        example_platform_def jor_def Let_def)

lemma putData_example:
  "putData_of example_platform 20 42 resolve_with_note (JObj ticket_42)
   = Inr (JObj
      [(''id'', JNum (Num 42)), (''servicio'', JNum (Num 5)),
       (''asunto'', JStr ''Internet lento''),
       (''descripcion'',
          JStr (''No carga'' @ [CHR 0x0A, CHR 0x0A] @ ''--- ACTUALIZACI'' @ O_acute
                @ ''N 10/02/2024, 10:00 ---'' @ [CHR 0x0A] @ ''Se cambio el router'')),
       (''estado'', JNum (Num 3)), (''prioridad'', JNum (Num 3)),
       (''asuntos_default'', JStr ''Internet Lento''),
       (''origen_reporte'', JStr ''portal_cliente''),
       (''fecha_fin'', JStr ''10/02/2024 10:00:00''),
       (''finalizado_por'', JStr ''admin@almacreativa''),
       (''fecha_inicio'', JStr ''10/02/2024 10:00:00''),
       (''razon_falla'', JStr ''Otro''), (''id_ticket'', JNum (Num 42))])"
  by (simp add: putData_of_def c3_example c5_example cleaned_example api_example spread_over_def)


lemma url_example: "ticket_url example_platform 42 = ''/api/tickets/42/''"
  by (simp add: ticket_url_def example_platform_def show_nat.simps)

theorem C9_ticket_put_payload_witness:
  "map body (sent (snd (actualizarTicket_put defaultConfig example_platform ticket_server 42
                          resolve_with_note (new_World 0))))
   = [JUndefined,
      JObj [(''id'', JNum (Num 42)), (''servicio'', JNum (Num 5)),
            (''asunto'', JStr ''Internet lento''),
            (''descripcion'',
               JStr (''No carga'' @ [CHR 0x0A, CHR 0x0A] @ ''--- ACTUALIZACI'' @ O_acute
                     @ ''N 10/02/2024, 10:00 ---'' @ [CHR 0x0A] @ ''Se cambio el router'')),
            (''estado'', JNum (Num 3)), (''prioridad'', JNum (Num 3)),
            (''asuntos_default'', JStr ''Internet Lento''),
            (''origen_reporte'', JStr ''portal_cliente''),
            (''fecha_fin'', JStr ''10/02/2024 10:00:00''),
            (''finalizado_por'', JStr ''admin@almacreativa''),
            (''fecha_inicio'', JStr ''10/02/2024 10:00:00''),
            (''razon_falla'', JStr ''Otro''), (''id_ticket'', JNum (Num 42))]]"
proof -
  have estado: "upd_estado resolve_with_note = Some ''resuelto''
                  \<or> upd_estado resolve_with_note = Some ''cerrado''"
    by (simp add: resolve_with_note_def)
  have cur: "WispHubClient_get defaultConfig example_platform ticket_server
               (ticket_url example_platform 42) JUndefined None (new_World 0)
             = (Inr (JObj ticket_42),
                \<lparr>now = 20, sent = [get_request ''/api/tickets/42/''], delays = [],
                 httpCache = new_CacheManager\<rparr>)"
    by (simp add: url_example ticket_server_def get_request_def client_defs)
  have rec: "firstRecord (JObj ticket_42) = JObj ticket_42"
    by (simp add: firstRecord_def selectRecord_def ticket_42_def)
  have asunto: "string_or_falsy (getp (JObj ticket_42) ''asunto'')"
    by (simp add: string_or_falsy_def ticket_42_def)
  have tecnico: "string_or_falsy (getp (JObj ticket_42) ''tecnico'')"
    by (simp add: string_or_falsy_def ticket_42_def)
  have run: "map body (sent (snd (actualizarTicket_put defaultConfig example_platform
                                    ticket_server 42 resolve_with_note (new_World 0))))
             = [JUndefined, projr (putData_of example_platform 20 42 resolve_with_note
                                     (JObj ticket_42))]"
    by (simp add: actualizarTicket_put_def cur rec putData_example url_example
          ticket_server_def get_request_def client_defs)
  show ?thesis
    using C9_ticket_put_payload [OF estado cur rec asunto tecnico]
    by (simp add: run putData_example)
qed

end
